theory Spec2Isabelle
  imports Complex_Main "HOL-Library.Sublist" "HOL-Library.Char_ord" "HOL-Library.List_Lexorder"
    "HOL-Library.Multiset"
begin

section \<open>JavaScript values used by the application\<close>

subsection \<open>Strings\<close>

text \<open>
  A JavaScript string is a sequence of UTF-16 code units. The model uses \<open>string\<close>
  and reads every \<open>char\<close> as one code unit below 256 (Latin-1), which covers every
  literal of the source. Of the code units that \<open>String.prototype.trim\<close> removes,
  the ones below 256 are TAB, LF, VT, FF, CR, SPACE and NBSP.
\<close>

definition isWhiteSpace :: "char \<Rightarrow> bool" where
  "isWhiteSpace c = (of_char c \<in> {9, 10, 11, 12, 13, 32, 160 :: nat})"

definition trim :: "string \<Rightarrow> string" where
  "trim s = rev (dropWhile isWhiteSpace (rev (dropWhile isWhiteSpace s)))"

text \<open>\<open>s.slice(0, n)\<close> for a literal \<open>n \<ge> 0\<close>: the first \<open>n\<close> code units.\<close>

definition slice0 :: "nat \<Rightarrow> string \<Rightarrow> string" where
  "slice0 n s = take n s"

definition toLowerChar :: "char \<Rightarrow> char" where
  "toLowerChar c =
     (let n = (of_char c :: nat) in
      if (65 \<le> n \<and> n \<le> 90) \<or> (192 \<le> n \<and> n \<le> 222 \<and> n \<noteq> 215)
      then char_of (n + 32) else c)"

definition toLowerCase :: "string \<Rightarrow> string" where
  "toLowerCase s = map toLowerChar s"

definition js_includes :: "string \<Rightarrow> string \<Rightarrow> bool" where
  "js_includes s t = sublist t s"

definition startsWith :: "string \<Rightarrow> string \<Rightarrow> bool" where
  "startsWith s p = prefix p s"

definition endsWith :: "string \<Rightarrow> string \<Rightarrow> bool" where
  "endsWith s p = suffix p s"

text \<open>\<open>s.split(".").pop()\<close>: the part of \<open>s\<close> after its last dot, all of \<open>s\<close>
  when it has none.\<close>

definition split_dot_pop :: "string \<Rightarrow> string" where
  "split_dot_pop s = rev (takeWhile (\<lambda>c. c \<noteq> CHR ''.'') (rev s))"

subsection \<open>Thrown values\<close>

text \<open>
  What an \<open>await\<close> can reject with or a statement can throw: an \<open>Error\<close> object
  with its message, or a value that is not an \<open>Error\<close> (the \<open>FileReader\<close> rejects
  with a progress event). A result is \<open>Inl\<close> of the thrown value or \<open>Inr\<close> of the
  returned one.
\<close>

datatype thrown = ErrorObj string | NonError

type_synonym 'a result = "thrown + 'a"

subsection \<open>Values decoded from JSON text\<close>

text \<open>
  \<open>JSON.parse\<close> returns an untyped value; the TypeScript annotations of the source
  (\<open>MicroLesson[]\<close>, \<open>QuizQuestion[]\<close>, \<open>Flashcard[]\<close>) are not checked at run time, so
  the fields filled from a completion hold whatever value the text decodes to. An
  object lists its properties in insertion order with distinct keys. A number is a
  double: only whether it is zero matters here (truthiness); a literal that overflows
  decodes to an infinity.
\<close>

datatype jsnumber = Finite rat | PosInfinity | NegInfinity

datatype json =
    JNull
  | JBool bool
  | JNumber jsnumber
  | JString string
  | JArray "json list"
  | JObject "(string \<times> json) list"

text \<open>
  \<open>JSON.parse\<close> itself is the platform's: the functions below take it as the parameter
  \<open>JSON_parse\<close>, with \<open>None\<close> for the \<open>SyntaxError\<close> it throws on text that is not JSON.
\<close>

type_synonym json_parser = "string \<Rightarrow> json option"

text \<open>ToBoolean on a decoded value.\<close>

fun truthy :: "json \<Rightarrow> bool" where
  "truthy JNull = False"
| "truthy (JBool b) = b"
| "truthy (JNumber (Finite r)) = (r \<noteq> 0)"
| "truthy (JNumber _) = True"
| "truthy (JString s) = (s \<noteq> [])"
| "truthy (JArray _) = True"
| "truthy (JObject _) = True"

text \<open>
  \<open>d.k\<close> for one of the property names \<open>lessons\<close>, \<open>questions\<close>, \<open>flashcards\<close>,
  \<open>correctAnswer\<close>, which no prototype defines: reading it from \<open>null\<close> throws a \<open>TypeError\<close> (\<open>Inl ()\<close>), an object
  gives its own property or \<open>undefined\<close> (\<open>None\<close>), any other value gives \<open>undefined\<close>.
\<close>

fun getProperty :: "json \<Rightarrow> string \<Rightarrow> unit + json option" where
  "getProperty JNull k = Inl ()"
| "getProperty (JObject kvs) k = Inr (map_of kvs k)"
| "getProperty _ k = Inr None"

text \<open>\<open>x || []\<close> where \<open>x\<close> is a property just read.\<close>

definition orEmptyArray :: "json option \<Rightarrow> json" where
  "orEmptyArray x = (case x of None \<Rightarrow> JArray [] | Some v \<Rightarrow> if truthy v then v else JArray [])"

section \<open>Structured response parsing\<close>

text \<open>
  The body of each \<open>try\<close> block that decodes a completion (three in
  \<open>generateLearningContent\<close>, one in \<open>generateNewQuestions\<close>):
  \<^verbatim>\<open>const data = JSON.parse(text); xs = data.k || [];\<close>
  \<open>None\<close> when the body throws (a \<open>SyntaxError\<close> from \<open>JSON.parse\<close> or a \<open>TypeError\<close> from
  reading a property of \<open>null\<close>), otherwise the value assigned.
\<close>

definition tryParseField :: "json_parser \<Rightarrow> string \<Rightarrow> string \<Rightarrow> json option" where
  "tryParseField JSON_parse text k =
     (case JSON_parse text of
        None \<Rightarrow> None
      | Some d \<Rightarrow> (case getProperty d k of Inl _ \<Rightarrow> None | Inr x \<Rightarrow> Some (orEmptyArray x)))"

text \<open>The lesson the \<open>catch\<close> block of the lessons parse builds from the raw text.\<close>

definition overviewLesson :: "string \<Rightarrow> json" where
  "overviewLesson text = JObject [(''title'', JString ''Overview''), (''content'', JString text)]"

definition parseLessons :: "json_parser \<Rightarrow> string \<Rightarrow> json" where
  "parseLessons JSON_parse text =
     (case tryParseField JSON_parse text ''lessons'' of
        Some v \<Rightarrow> v
      | None \<Rightarrow> JArray [overviewLesson text])"

definition parseQuiz :: "json_parser \<Rightarrow> string \<Rightarrow> json" where
  "parseQuiz JSON_parse text =
     (case tryParseField JSON_parse text ''questions'' of
        Some v \<Rightarrow> v
      | None \<Rightarrow> JArray [])"

definition parseFlashcards :: "json_parser \<Rightarrow> string \<Rightarrow> json" where
  "parseFlashcards JSON_parse text =
     (case tryParseField JSON_parse text ''flashcards'' of
        Some v \<Rightarrow> v
      | None \<Rightarrow> JArray [])"

text \<open>
  \<open>JSON.parse\<close> on the texts the examples of this theory use; the examples give it no
  other JSON text, and \<open>not json\<close> is a syntax error.
\<close>

definition example_JSON_parse :: json_parser where
  "example_JSON_parse s =
     (if s = ''{}'' then Some (JObject [])
      else if s = ''null'' then Some JNull
      else if s = ''{\"questions\": [1]}'' then Some (JObject [(''questions'', JArray [JNumber (Finite 1)])])
      else None)"

section \<open>Data model\<close>

datatype LessonLength = Short | Normal | Long

text \<open>
  \<open>LearningContent\<close>: the three lists decoded from completions are held as decoded
  (see above); \<open>summary\<close> is the raw completion text.
\<close>

record LearningContent =
  microLessons :: json
  quizQuestions :: json
  summary :: string
  flashcards :: json
  content_detectedLanguage :: string

text \<open>
  \<open>QuizResult\<close> and \<open>UploadedMaterial\<close> are parametrised by how a date is held: a
  \<open>Date\<close> object in memory (\<open>jsdate\<close>), what \<open>JSON.stringify\<close> leaves of it in storage
  (\<open>stored_date\<close>). \<open>percentage\<close> is \<open>None\<close> when the quotient is not a finite number
  (no questions), otherwise the exact quotient: the rounding of doubles is not
  modelled, and no statement below depends on the field.
\<close>

record 'd QuizResult =
  timestamp :: 'd
  totalQuestions :: nat
  correctAnswers :: nat
  percentage :: "rat option"

datatype ProcessingStatus = Pending | Processing | Completed | Failed

text \<open>\<open>Failed\<close> is the status \<open>"error"\<close>; the optional fields are \<open>option\<close>s.\<close>

record 'd UploadedMaterial =
  material_id :: string
  fileName :: string
  fileType :: string
  fileUrl :: string
  uploadedAt :: 'd
  extractedText :: string
  detectedLanguage :: "string option"
  suggestedTitle :: "string option"
  thematicCategory :: "string option"
  content :: "LearningContent option"
  processingStatus :: ProcessingStatus
  error :: "string option"
  quizResults :: "'d QuizResult list option"

text \<open>
  A \<open>Date\<close> object: its time value in milliseconds, or an invalid date. In storage a
  valid date is the ISO string of its time value (\<open>IsoString t\<close> stands for that
  string) and an invalid one is \<open>null\<close>, as \<open>Date.prototype.toJSON\<close> writes them;
  \<open>new Date\<close> reads the ISO string back to the same time value and \<open>null\<close> as time 0.
\<close>

datatype jsdate = ValidDate int | InvalidDate

datatype stored_date = IsoString int | NullDate

fun date_toJSON :: "jsdate \<Rightarrow> stored_date" where
  "date_toJSON (ValidDate t) = IsoString t"
| "date_toJSON InvalidDate = NullDate"

fun new_Date :: "stored_date \<Rightarrow> jsdate" where
  "new_Date (IsoString t) = ValidDate t"
| "new_Date NullDate = ValidDate 0"

type_synonym material = "jsdate UploadedMaterial"

type_synonym stored_material = "stored_date UploadedMaterial"

record UserData =
  email :: string
  isPremium :: bool

record UploadLimits =
  limits_date :: string
  limits_count :: int

text \<open>
  \<open>localStorage\<close>: each key holds the text \<open>JSON.stringify\<close> wrote, modelled by the
  value that text decodes to; \<open>Unreadable\<close> is text that \<open>JSON.parse\<close> or the code
  reading it rejects.
\<close>

datatype stored =
    StoredMaterials "stored_material list"
  | StoredLimits UploadLimits
  | StoredSubscription bool
  | Unreadable

definition STORAGE_KEY :: string where
  "STORAGE_KEY = ''learning-materials''"

definition SUBSCRIPTION_KEY :: string where
  "SUBSCRIPTION_KEY = ''subscription-status''"

definition UPLOAD_LIMIT_KEY :: string where
  "UPLOAD_LIMIT_KEY = ''upload-limits''"

definition FREE_DAILY_LIMIT :: int where
  "FREE_DAILY_LIMIT = 3"

section \<open>Chat completion client\<close>

datatype role = System | User | Assistant

record ChatMessage =
  msg_role :: role
  msg_content :: string

record GPTChatInput =
  messages :: "ChatMessage list"
  model :: "string option"

text \<open>The body of the request sent to the backend.\<close>

record ChatRequest =
  req_model :: string
  req_messages :: "ChatMessage list"

text \<open>
  What \<open>createChatCompletion\<close> resolves to: \<open>error\<close> set, no \<open>data\<close>, or the data. A
  choice holds \<open>message.content\<close> when both are there.
\<close>

record Choice =
  message_content :: "string option"
  finish_reason :: string

record CompletionData =
  data_id :: string
  data_model :: string
  choices :: "Choice list"
  prompt_tokens :: nat
  completion_tokens :: nat
  total_tokens :: nat

datatype ApiResponse = ApiError | NoData | Data CompletionData

record GPTChatResponse =
  response_content :: string
  response_id :: string
  response_model :: string
  promptTokens :: nat
  completionTokens :: nat
  totalTokens :: nat
  finishReason :: string

text \<open>
  The checks of \<open>mutationFn\<close> before the request. The role of a message is one of the
  three by its type, so of the per-message checks only the empty content can fail.
\<close>

definition validateInput :: "GPTChatInput \<Rightarrow> thrown option" where
  "validateInput input =
     (if messages input = [] then Some (ErrorObj ''At least one message is required'')
      else if \<exists>m \<in> set (messages input). msg_content m = []
      then Some (ErrorObj ''Each message must have a role and content'')
      else None)"

definition requestData :: "GPTChatInput \<Rightarrow> ChatRequest" where
  "requestData input =
     \<lparr>req_model = (case model input of
                     None \<Rightarrow> ''MaaS_4.1''
                   | Some m \<Rightarrow> if m = [] then ''MaaS_4.1'' else m),
      req_messages = messages input\<rparr>"

definition readResponse :: "ApiResponse \<Rightarrow> GPTChatResponse result" where
  "readResponse response =
     (case response of
        ApiError \<Rightarrow> Inl (ErrorObj ''Chat completion request failed. Please check your API credentials.'')
      | NoData \<Rightarrow> Inl (ErrorObj ''No response data received from chat completion API'')
      | Data d \<Rightarrow>
          (case choices d of
             [] \<Rightarrow> Inl (ErrorObj ''No completion choices returned from API'')
           | firstChoice # _ \<Rightarrow>
               (case message_content firstChoice of
                  None \<Rightarrow> Inl (ErrorObj ''No content in completion response'')
                | Some c \<Rightarrow>
                    if c = [] then Inl (ErrorObj ''No content in completion response'')
                    else Inr \<lparr>response_content = c,
                              response_id = data_id d,
                              response_model = data_model d,
                              promptTokens = prompt_tokens d,
                              completionTokens = completion_tokens d,
                              totalTokens = total_tokens d,
                              finishReason = finish_reason firstChoice\<rparr>)))"

section \<open>Application state and its environment\<close>

record File =
  file_name :: string
  file_type :: string

text \<open>The call site of a chat completion.\<close>

datatype Stage =
  DetectLanguage | SuggestTitle | Categorize | Lessons | Quiz | Summary | Flashcards | NewQuestions

text \<open>
  The effects a run performs, in the order it performs them: a request sent to the
  chat backend (with its call site), the upload of a file, a value set as progress, a
  value set as the materials list, a value set as today's upload count, an alert.
  The state carries the list of them as a history, which the code does not have.
\<close>

datatype event =
    ChatCall Stage ChatRequest
  | UploadCall File
  | ProgressSet nat
  | MaterialsSet "material list"
  | CountSet int
  | Alert string

text \<open>\<open>quizAnswers[idx]\<close>: no entry, \<open>null\<close>, or the index chosen.\<close>

datatype answer = NoAnswer | NullAnswer | Chosen int

text \<open>
  The state of the \<open>App\<close> component that the modelled functions read or write, and
  \<open>localStorage\<close>. State that only the markup reads (dialogs but the subscription
  one, the name being edited, flipped cards) is left out.
\<close>

record AppState =
  materials :: "material list"
  selectedMaterial :: "material option"
  processingProgress :: nat
  lessonLength :: LessonLength
  quizAnswers :: "nat \<Rightarrow> answer"
  revealedAnswers :: "nat \<Rightarrow> bool"
  isGeneratingQuestions :: bool
  subscription_isPremium :: bool
  showSubscriptionDialog :: bool
  todayUploadCount :: int
  currentUser :: "UserData option"
  localStorage :: "string \<rightharpoonup> stored"
  trace :: "event list"

text \<open>
  What the platform and the network answer during one run: \<open>JSON.parse\<close>; the
  comparison \<open>v > 0\<close> on a decoded value; the backend's answer to the \<open>k\<close>-th chat
  request since the history began; the upload hook's result (the file URL); the two
  text extractors; \<open>String(Date.now())\<close>, \<open>String(Math.random())\<close>, \<open>new Date()\<close> and
  \<open>new Date().toDateString()\<close>.
\<close>

record Env =
  JSON_parse :: json_parser
  js_gt_zero :: "json \<Rightarrow> bool"
  createChatCompletion :: "nat \<Rightarrow> ChatRequest \<Rightarrow> ApiResponse result"
  uploadFile :: "File \<Rightarrow> string result"
  extractTextFromPDF :: "File \<Rightarrow> string result"
  extractTextFromFile :: "File \<Rightarrow> string result"
  date_now :: string
  math_random :: string
  current_date :: jsdate
  today :: string

subsection \<open>Persistence of the materials list\<close>

text \<open>
  \<open>JSON.parse(JSON.stringify(v))\<close> on a decoded value: an infinite number is written
  as \<open>null\<close>, everything else reads back as it was.
\<close>

primrec json_roundtrip :: "json \<Rightarrow> json" where
  "json_roundtrip JNull = JNull"
| "json_roundtrip (JBool b) = JBool b"
| "json_roundtrip (JNumber n) = (case n of Finite r \<Rightarrow> JNumber (Finite r) | _ \<Rightarrow> JNull)"
| "json_roundtrip (JString s) = JString s"
| "json_roundtrip (JArray xs) = JArray (map json_roundtrip xs)"
| "json_roundtrip (JObject kvs) = JObject (map (map_prod id json_roundtrip) kvs)"

definition content_toJSON :: "LearningContent \<Rightarrow> LearningContent" where
  "content_toJSON c =
     c\<lparr>microLessons := json_roundtrip (microLessons c),
       quizQuestions := json_roundtrip (quizQuestions c),
       flashcards := json_roundtrip (flashcards c)\<rparr>"

definition map_result_date :: "('a \<Rightarrow> 'b) \<Rightarrow> 'a QuizResult \<Rightarrow> 'b QuizResult" where
  "map_result_date f r =
     \<lparr>timestamp = f (timestamp r),
      totalQuestions = totalQuestions r,
      correctAnswers = correctAnswers r,
      percentage = percentage r\<rparr>"

definition map_material_dates ::
  "('a \<Rightarrow> 'b) \<Rightarrow> (LearningContent \<Rightarrow> LearningContent) \<Rightarrow> 'a UploadedMaterial \<Rightarrow> 'b UploadedMaterial" where
  "map_material_dates f g m =
     \<lparr>material_id = material_id m,
      fileName = fileName m,
      fileType = fileType m,
      fileUrl = fileUrl m,
      uploadedAt = f (uploadedAt m),
      extractedText = extractedText m,
      detectedLanguage = detectedLanguage m,
      suggestedTitle = suggestedTitle m,
      thematicCategory = thematicCategory m,
      content = map_option g (content m),
      processingStatus = processingStatus m,
      error = error m,
      quizResults = map_option (map (map_result_date f)) (quizResults m)\<rparr>"

text \<open>What \<open>JSON.stringify\<close> writes of a material, as the value it decodes to.\<close>

definition material_toJSON :: "material \<Rightarrow> stored_material" where
  "material_toJSON = map_material_dates date_toJSON content_toJSON"

text \<open>
  The mapping of the mount effect:
  \<^verbatim>\<open>{...m, uploadedAt: new Date(m.uploadedAt),
    quizResults: m.quizResults?.map((r) => ({...r, timestamp: new Date(r.timestamp)}))}\<close>
\<close>

definition rehydrate :: "stored_material \<Rightarrow> material" where
  "rehydrate = map_material_dates new_Date (\<lambda>c. c)"

text \<open>
  The body of the effect on \<open>[materials]\<close>:
  \<^verbatim>\<open>if (materials.length > 0) localStorage.setItem(STORAGE_KEY, JSON.stringify(materials));\<close>
\<close>

definition saveMaterialsEffect :: "material list \<Rightarrow> (string \<rightharpoonup> stored) \<Rightarrow> (string \<rightharpoonup> stored)" where
  "saveMaterialsEffect ms st =
     (if length ms > 0 then st(STORAGE_KEY \<mapsto> StoredMaterials (map material_toJSON ms)) else st)"

text \<open>
  No handler writes the materials to storage. After the handlers have set a new list
  React renders the component, and when that render commits it runs the effect. The
  list pane of the markup reads typed fields only; the detail pane reads the decoded
  content of the selected material unchecked (\<open>microLessons.map\<close>, \<open>quiz.options.map\<close>)
  and throws on content that is not a list of well-formed objects. A render that throws
  commits nothing and the effect does not run. Whether the render commits is an input
  of the step; with no material selected it reads no decoded content.
\<close>

datatype render = Commits | Throws

definition afterRender :: "render \<Rightarrow> AppState \<Rightarrow> AppState" where
  "afterRender outcome s =
     (case outcome of
        Commits \<Rightarrow> s\<lparr>localStorage := saveMaterialsEffect (materials s) (localStorage s)\<rparr>
      | Throws \<Rightarrow> s)"

subsection \<open>State setters\<close>

text \<open>
  \<open>setMaterials(f)\<close> sets the list and nothing else; the storage is written by the
  effect, in the step \<open>afterRender\<close>.
\<close>

definition setMaterials :: "(material list \<Rightarrow> material list) \<Rightarrow> AppState \<Rightarrow> AppState" where
  "setMaterials f s =
     (let ms = f (materials s) in
      s\<lparr>materials := ms, trace := trace s @ [MaterialsSet ms]\<rparr>)"

definition setProcessingProgress :: "nat \<Rightarrow> AppState \<Rightarrow> AppState" where
  "setProcessingProgress n s = s\<lparr>processingProgress := n, trace := trace s @ [ProgressSet n]\<rparr>"

text \<open>
  \<open>setSelectedMaterial\<close> sets the selection. The effect on the selected identifier,
  which clears the quiz answers after the next render, is no part of the setter and is
  left out.
\<close>

definition setSelectedMaterial :: "(material option \<Rightarrow> material option) \<Rightarrow> AppState \<Rightarrow> AppState" where
  "setSelectedMaterial f s = s\<lparr>selectedMaterial := f (selectedMaterial s)\<rparr>"

text \<open>The part of the mount effect that loads the materials. The save effect of the
  first render runs after it, on the empty list of that render, and writes nothing.\<close>

definition loadMaterials :: "AppState \<Rightarrow> AppState" where
  "loadMaterials s =
     (case localStorage s STORAGE_KEY of
        Some (StoredMaterials parsed) \<Rightarrow> setMaterials (\<lambda>_. map rehydrate parsed) s
      | _ \<Rightarrow> s)"

text \<open>The state of a freshly mounted component over a given storage.\<close>

definition initialState :: "(string \<rightharpoonup> stored) \<Rightarrow> AppState" where
  "initialState st =
     \<lparr>materials = [],
      selectedMaterial = None,
      processingProgress = 0,
      lessonLength = Normal,
      quizAnswers = (\<lambda>_. NoAnswer),
      revealedAnswers = (\<lambda>_. False),
      isGeneratingQuestions = False,
      subscription_isPremium = False,
      showSubscriptionDialog = False,
      todayUploadCount = 0,
      currentUser = None,
      localStorage = st,
      trace = []\<rparr>"

subsection \<open>Upload limit\<close>

definition canUpload :: "AppState \<Rightarrow> bool" where
  "canUpload s =
     (if (case currentUser s of Some u \<Rightarrow> isPremium u | None \<Rightarrow> False) \<or> subscription_isPremium s
      then True
      else todayUploadCount s < FREE_DAILY_LIMIT)"

definition incrementUploadCount :: "Env \<Rightarrow> AppState \<Rightarrow> AppState" where
  "incrementUploadCount E s =
     (let newCount = todayUploadCount s + 1 in
      s\<lparr>todayUploadCount := newCount,
        localStorage := (localStorage s)(UPLOAD_LIMIT_KEY \<mapsto>
           StoredLimits \<lparr>limits_date = today E, limits_count = newCount\<rparr>),
        trace := trace s @ [CountSet newCount]\<rparr>)"

section \<open>Content generation pipeline\<close>

text \<open>
  \<open>await r f\<close>: \<open>const v = await r; f v\<close>. A rejection ends the enclosing function with
  the thrown value and the state reached.
\<close>

definition await :: "'a result \<times> AppState \<Rightarrow> ('a \<Rightarrow> AppState \<Rightarrow> 'b result \<times> AppState) \<Rightarrow> 'b result \<times> AppState" where
  "await r f = (case r of (Inl e, s) \<Rightarrow> (Inl e, s) | (Inr v, s) \<Rightarrow> f v s)"

fun chatCalls :: "event list \<Rightarrow> (Stage \<times> ChatRequest) list" where
  "chatCalls [] = []"
| "chatCalls (ChatCall st r # es) = (st, r) # chatCalls es"
| "chatCalls (_ # es) = chatCalls es"

text \<open>
  \<open>chatMutation.mutateAsync(input)\<close> at call site \<open>st\<close>: the checks, then the request,
  then the reading of the response. The request is recorded when it is sent.
\<close>

definition mutateAsync :: "Env \<Rightarrow> Stage \<Rightarrow> GPTChatInput \<Rightarrow> AppState \<Rightarrow> GPTChatResponse result \<times> AppState" where
  "mutateAsync E st input s =
     (case validateInput input of
        Some e \<Rightarrow> (Inl e, s)
      | None \<Rightarrow>
          (let request = requestData input;
               k = length (chatCalls (trace s));
               s' = s\<lparr>trace := trace s @ [ChatCall st request]\<rparr>
           in case createChatCompletion E k request of
                Inl e \<Rightarrow> (Inl e, s')
              | Inr response \<Rightarrow> (readResponse response, s')))"

subsection \<open>The prompts\<close>

definition detectLanguageInput :: "string \<Rightarrow> GPTChatInput" where
  "detectLanguageInput text =
     \<lparr>messages =
        [\<lparr>msg_role = System,
          msg_content = ''You are a language detection expert. Detect the language of the provided text and return ONLY the language name in English (e.g., 'English', 'German', 'Spanish', 'French', etc.). Return just the language name, nothing else.''\<rparr>,
         \<lparr>msg_role = User,
          msg_content = ''Detect the language of this text:\<newline>\<newline>'' @ slice0 1000 text\<rparr>],
      model = None\<rparr>"

definition titleInput :: "string \<Rightarrow> string \<Rightarrow> GPTChatInput" where
  "titleInput text language =
     \<lparr>messages =
        [\<lparr>msg_role = System,
          msg_content = ''You are a content analyst. Analyze the provided text and generate a short, descriptive title (3-8 words) that captures the main topic or subject. Respond ONLY with the title in '' @ language @ '', nothing else.''\<rparr>,
         \<lparr>msg_role = User,
          msg_content = ''Generate a title for this content:\<newline>\<newline>'' @ slice0 2000 text\<rparr>],
      model = None\<rparr>"

definition categoryInput :: "string \<Rightarrow> string \<Rightarrow> GPTChatInput" where
  "categoryInput text language =
     \<lparr>messages =
        [\<lparr>msg_role = System,
          msg_content = ''You are a content categorization expert. Analyze the provided text and assign it to ONE thematic category. Choose from: Science, Technology, History, Literature, Mathematics, Business, Arts, Health, Language, Social Studies, Philosophy, Engineering, or Other. Respond ONLY with the category name in '' @ language @ '', nothing else.''\<rparr>,
         \<lparr>msg_role = User,
          msg_content = ''Categorize this content:\<newline>\<newline>'' @ slice0 2000 text\<rparr>],
      model = None\<rparr>"

text \<open>\<open>lessonConfig[lessonLength]\<close>: the count and the detail asked for.\<close>

fun lessonConfig :: "LessonLength \<Rightarrow> string \<times> string" where
  "lessonConfig Short = (''2-3'', ''brief and concise, focusing only on key points'')"
| "lessonConfig Normal = (''4-5'', ''moderate detail with clear explanations'')"
| "lessonConfig Long = (''6-8'', ''comprehensive and detailed with examples and in-depth explanations'')"

definition lessonsInput :: "LessonLength \<Rightarrow> string \<Rightarrow> string \<Rightarrow> GPTChatInput" where
  "lessonsInput len text language =
     \<lparr>messages =
        [\<lparr>msg_role = System,
          msg_content = ''You are an educational content creator. Create '' @ fst (lessonConfig len) @ '' '' @ snd (lessonConfig len) @ '' micro-lessons from the provided text. You MUST respond in '' @ language @ ''. Return ONLY valid JSON in this exact format: {\"lessons\": [{\"title\": \"...\", \"content\": \"...\"}]}''\<rparr>,
         \<lparr>msg_role = User,
          msg_content = ''Create micro-lessons from this text:\<newline>\<newline>'' @ slice0 4000 text\<rparr>],
      model = None\<rparr>"

definition quizInput :: "string \<Rightarrow> string \<Rightarrow> GPTChatInput" where
  "quizInput text language =
     \<lparr>messages =
        [\<lparr>msg_role = System,
          msg_content = ''You are a quiz creator. Create 5-7 detailed multiple-choice questions with 4 options each. Include an explanation for each correct answer. You MUST respond in '' @ language @ ''. Return ONLY valid JSON in this exact format: {\"questions\": [{\"question\": \"...\", \"options\": [\"A\", \"B\", \"C\", \"D\"], \"correctAnswer\": 0, \"explanation\": \"...\"}]}''\<rparr>,
         \<lparr>msg_role = User,
          msg_content = ''Create quiz questions from this text:\<newline>\<newline>'' @ slice0 4000 text\<rparr>],
      model = None\<rparr>"

definition summaryInput :: "string \<Rightarrow> string \<Rightarrow> GPTChatInput" where
  "summaryInput text language =
     \<lparr>messages =
        [\<lparr>msg_role = System,
          msg_content = ''You are a summarization expert. Create a concise 2-3 paragraph summary. You MUST respond in '' @ language @ ''.''\<rparr>,
         \<lparr>msg_role = User,
          msg_content = ''Summarize this text:\<newline>\<newline>'' @ slice0 4000 text\<rparr>],
      model = None\<rparr>"

definition flashcardsInput :: "string \<Rightarrow> string \<Rightarrow> GPTChatInput" where
  "flashcardsInput text language =
     \<lparr>messages =
        [\<lparr>msg_role = System,
          msg_content = ''You are a flashcard creator. Create 10-12 detailed flashcards with a question/term on the front and a comprehensive answer/definition on the back. You MUST respond in '' @ language @ ''. Return ONLY valid JSON in this exact format: {\"flashcards\": [{\"front\": \"...\", \"back\": \"...\"}]}''\<rparr>,
         \<lparr>msg_role = User,
          msg_content = ''Create flashcards from this text:\<newline>\<newline>'' @ slice0 4000 text\<rparr>],
      model = None\<rparr>"

definition newQuestionsInput :: "string \<Rightarrow> string \<Rightarrow> GPTChatInput" where
  "newQuestionsInput text language =
     \<lparr>messages =
        [\<lparr>msg_role = System,
          msg_content = ''You are a quiz creator. Create 5-7 NEW and DIFFERENT detailed multiple-choice questions with 4 options each. Make sure these questions are different from any previous questions. Include an explanation for each correct answer. You MUST respond in '' @ language @ ''. Return ONLY valid JSON in this exact format: {\"questions\": [{\"question\": \"...\", \"options\": [\"A\", \"B\", \"C\", \"D\"], \"correctAnswer\": 0, \"explanation\": \"...\"}]}''\<rparr>,
         \<lparr>msg_role = User,
          msg_content = ''Create NEW quiz questions from this text:\<newline>\<newline>'' @ slice0 4000 text\<rparr>],
      model = None\<rparr>"

subsection \<open>The stages\<close>

definition detectLanguage :: "Env \<Rightarrow> string \<Rightarrow> AppState \<Rightarrow> string result \<times> AppState" where
  "detectLanguage E text s =
     await (mutateAsync E DetectLanguage (detectLanguageInput text) s)
       (\<lambda>response s'. (Inr (trim (response_content response)), s'))"

definition generateSuggestedTitle :: "Env \<Rightarrow> string \<Rightarrow> string \<Rightarrow> AppState \<Rightarrow> string result \<times> AppState" where
  "generateSuggestedTitle E text language s =
     await (mutateAsync E SuggestTitle (titleInput text language) s)
       (\<lambda>response s'. (Inr (trim (response_content response)), s'))"

definition categorizeContent :: "Env \<Rightarrow> string \<Rightarrow> string \<Rightarrow> AppState \<Rightarrow> string result \<times> AppState" where
  "categorizeContent E text language s =
     await (mutateAsync E Categorize (categoryInput text language) s)
       (\<lambda>response s'. (Inr (trim (response_content response)), s'))"

definition generateLearningContent ::
  "Env \<Rightarrow> string \<Rightarrow> LessonLength \<Rightarrow> AppState \<Rightarrow> LearningContent result \<times> AppState" where
  "generateLearningContent E text len s =
     await (detectLanguage E text (setProcessingProgress 10 s))
       (\<lambda>language s1.
     await (mutateAsync E Lessons (lessonsInput len text language) (setProcessingProgress 25 s1))
       (\<lambda>lessonsResponse s2.
     await (mutateAsync E Quiz (quizInput text language) (setProcessingProgress 40 s2))
       (\<lambda>quizResponse s3.
     await (mutateAsync E Summary (summaryInput text language) (setProcessingProgress 60 s3))
       (\<lambda>summaryResponse s4.
     await (mutateAsync E Flashcards (flashcardsInput text language) (setProcessingProgress 80 s4))
       (\<lambda>flashcardsResponse s5.
         (Inr \<lparr>microLessons = parseLessons (JSON_parse E) (response_content lessonsResponse),
               quizQuestions = parseQuiz (JSON_parse E) (response_content quizResponse),
               summary = response_content summaryResponse,
               flashcards = parseFlashcards (JSON_parse E) (response_content flashcardsResponse),
               content_detectedLanguage = language\<rparr>,
          setProcessingProgress 100 s5))))))"

section \<open>Upload handling\<close>

text \<open>\<open>prev.map((m) => m.id === id ? f(m) : m)\<close>, the shape of every updater but two.\<close>

definition updateById :: "string \<Rightarrow> (material \<Rightarrow> material) \<Rightarrow> material list \<Rightarrow> material list" where
  "updateById i f prev = map (\<lambda>m. if material_id m = i then f m else m) prev"

definition isValidFormat :: "File \<Rightarrow> bool" where
  "isValidFormat file =
     (let lowerName = toLowerCase (file_name file);
          lowerType = toLowerCase (file_type file)
      in lowerType = ''application/pdf'' \<or>
         js_includes lowerType ''presentation'' \<or>
         endsWith lowerName ''.ppt'' \<or>
         endsWith lowerName ''.pptx'' \<or>
         startsWith lowerType ''text/'' \<or>
         endsWith lowerName ''.txt'')"

text \<open>\<open>file.type || file.name.split(".").pop() || "unknown"\<close>\<close>

definition actualFileType :: "File \<Rightarrow> string" where
  "actualFileType file =
     (if file_type file \<noteq> [] then file_type file
      else if split_dot_pop (file_name file) \<noteq> [] then split_dot_pop (file_name file)
      else ''unknown'')"

definition transcribeMedia :: "string \<Rightarrow> string \<Rightarrow> string" where
  "transcribeMedia url name =
     ''[Transcription of '' @ name @ '']\<newline>\<newline>This is a simulated transcription. In production, this would use a speech-to-text API like OpenAI Whisper to transcribe the audio/video content.''"

text \<open>The choice of extractor in \<open>handleFileUpload\<close>; a PPT file is read as text.\<close>

definition extractText :: "Env \<Rightarrow> File \<Rightarrow> string \<Rightarrow> string result" where
  "extractText E file url =
     (if file_type file = ''application/pdf'' then extractTextFromPDF E file
      else if js_includes (file_type file) ''presentation'' \<or> endsWith (file_name file) ''.ppt''
              \<or> endsWith (file_name file) ''.pptx''
      then extractTextFromFile E file
      else if startsWith (file_type file) ''text/'' then extractTextFromFile E file
      else if startsWith (file_type file) ''audio/'' \<or> startsWith (file_type file) ''video/''
      then Inr (transcribeMedia url (file_name file))
      else extractTextFromFile E file)"

definition uploadMutation :: "Env \<Rightarrow> File \<Rightarrow> AppState \<Rightarrow> string result \<times> AppState" where
  "uploadMutation E file s = (uploadFile E file, s\<lparr>trace := trace s @ [UploadCall file]\<rparr>)"

text \<open>\<^verbatim>\<open>`${Date.now()}-${Math.random()}`\<close>\<close>

definition newMaterialId :: "Env \<Rightarrow> string" where
  "newMaterialId E = date_now E @ ''-'' @ math_random E"

definition newMaterial :: "Env \<Rightarrow> File \<Rightarrow> material" where
  "newMaterial E file =
     \<lparr>material_id = newMaterialId E,
      fileName = file_name file,
      fileType = actualFileType file,
      fileUrl = [],
      uploadedAt = current_date E,
      extractedText = [],
      detectedLanguage = None,
      suggestedTitle = None,
      thematicCategory = None,
      content = None,
      processingStatus = Pending,
      error = None,
      quizResults = None\<rparr>"

text \<open>The \<open>try\<close> block of \<open>handleFileUpload\<close>. The lesson length is the one of the
  render that made the handler, the state the block starts from.\<close>

definition processUpload :: "Env \<Rightarrow> File \<Rightarrow> string \<Rightarrow> AppState \<Rightarrow> unit result \<times> AppState" where
  "processUpload E file materialId s =
     await (uploadMutation E file s)
       (\<lambda>url s1.
     await (extractText E file url,
            setProcessingProgress 10
              (setMaterials (updateById materialId
                 (\<lambda>m. m\<lparr>fileUrl := url, processingStatus := Processing\<rparr>)) s1))
       (\<lambda>text s2.
     await (generateLearningContent E text (lessonLength s)
              (setMaterials (updateById materialId (\<lambda>m. m\<lparr>extractedText := text\<rparr>))
                 (setProcessingProgress 20 s2)))
       (\<lambda>c s3.
     await (generateSuggestedTitle E text (content_detectedLanguage c) s3)
       (\<lambda>title s4.
     await (categorizeContent E text (content_detectedLanguage c) s4)
       (\<lambda>category s5.
         (Inr (),
          setSelectedMaterial
            (\<lambda>prev. case prev of
                       None \<Rightarrow> None
                     | Some p \<Rightarrow>
                         if material_id p = materialId
                         then Some (p\<lparr>content := Some c, processingStatus := Completed\<rparr>)
                         else Some p)
            (setMaterials (updateById materialId
               (\<lambda>m. m\<lparr>content := Some c, processingStatus := Completed\<rparr>))
            (setMaterials (updateById materialId
               (\<lambda>m. m\<lparr>detectedLanguage := Some (content_detectedLanguage c),
                       suggestedTitle := Some title,
                       thematicCategory := Some category\<rparr>)) s5))))))))"

text \<open>\<open>error instanceof Error ? error.message : "Unknown error"\<close>\<close>

fun errorMessage :: "thrown \<Rightarrow> string" where
  "errorMessage (ErrorObj msg) = msg"
| "errorMessage NonError = ''Unknown error''"

text \<open>
  \<open>handleFileUpload\<close> on a change event whose first file is \<open>fileOpt\<close>, run from the
  pick of the file to the end of the \<open>try\<close>/\<open>catch\<close> with nothing else in between.
  The reset of the file input (\<open>event.target.value = ""\<close>) touches no state of the
  component and is left out.
\<close>

definition handleFileUpload :: "Env \<Rightarrow> File option \<Rightarrow> AppState \<Rightarrow> AppState" where
  "handleFileUpload E fileOpt s =
     (case fileOpt of
        None \<Rightarrow> s
      | Some file \<Rightarrow>
          (let effectiveIsPremium = (case currentUser s of Some u \<Rightarrow> isPremium u | None \<Rightarrow> False) in
           if \<not> effectiveIsPremium \<and> \<not> canUpload s then s\<lparr>showSubscriptionDialog := True\<rparr>
           else if \<not> isValidFormat file
           then s\<lparr>trace := trace s @ [Alert ''Nur PDF, PPT und Text-Dateien sind erlaubt.'']\<rparr>
           else
             (let materialId = newMaterialId E;
                  s1 = setMaterials (\<lambda>prev. prev @ [newMaterial E file]) s;
                  s2 = setSelectedMaterial (\<lambda>_. Some (newMaterial E file)) s1;
                  s3 = setProcessingProgress 0 s2;
                  s4 = incrementUploadCount E s3
              in case processUpload E file materialId s4 of
                   (Inr _, s') \<Rightarrow> s'
                 | (Inl e, s') \<Rightarrow>
                     setMaterials (updateById materialId
                       (\<lambda>m. m\<lparr>processingStatus := Failed, error := Some (errorMessage e)\<rparr>)) s')))"

section \<open>Other operations on the materials\<close>

definition deleteMaterial :: "string \<Rightarrow> AppState \<Rightarrow> AppState" where
  "deleteMaterial i s =
     (let s1 = setMaterials (filter (\<lambda>m. material_id m \<noteq> i)) s in
      if map_option material_id (selectedMaterial s) = Some i
      then setSelectedMaterial (\<lambda>_. None) s1 else s1)"

definition renameMaterial :: "string \<Rightarrow> string \<Rightarrow> AppState \<Rightarrow> AppState" where
  "renameMaterial i newName s =
     (let s1 = setMaterials (updateById i (\<lambda>m. m\<lparr>fileName := newName\<rparr>)) s in
      if map_option material_id (selectedMaterial s) = Some i
      then setSelectedMaterial (map_option (\<lambda>prev. prev\<lparr>fileName := newName\<rparr>)) s1 else s1)"

definition applySuggestedTitle :: "string \<Rightarrow> AppState \<Rightarrow> AppState" where
  "applySuggestedTitle i s =
     (case find (\<lambda>m. material_id m = i) (materials s) of
        None \<Rightarrow> s
      | Some m \<Rightarrow>
          (case suggestedTitle m of
             None \<Rightarrow> s
           | Some title \<Rightarrow>
               if title = [] then s
               else renameMaterial i (title @ ''.'' @ split_dot_pop (fileName m)) s))"

text \<open>\<open>quizAnswers[idx] === quiz.correctAnswer\<close>, the right side \<open>None\<close> when undefined.\<close>

fun strictEquals :: "answer \<Rightarrow> json option \<Rightarrow> bool" where
  "strictEquals NoAnswer None = True"
| "strictEquals NullAnswer (Some JNull) = True"
| "strictEquals (Chosen n) (Some (JNumber (Finite r))) = (of_int n = r)"
| "strictEquals _ _ = False"

text \<open>The \<open>forEach\<close> of \<open>saveQuizResult\<close> from index \<open>idx\<close> on; \<open>None\<close> when reading
  \<open>correctAnswer\<close> of a \<open>null\<close> element throws.\<close>

fun countCorrect :: "(nat \<Rightarrow> answer) \<Rightarrow> nat \<Rightarrow> json list \<Rightarrow> nat option" where
  "countCorrect qa idx [] = Some 0"
| "countCorrect qa idx (quiz # rest) =
     (case getProperty quiz ''correctAnswer'' of
        Inl _ \<Rightarrow> None
      | Inr ca \<Rightarrow>
          map_option (\<lambda>n. if strictEquals (qa idx) ca then Suc n else n)
            (countCorrect qa (Suc idx) rest))"

text \<open>
  \<open>saveQuizResult\<close>. A throw inside it (the questions are no array, or one of them is
  \<open>null\<close>) leaves the click handler before any state is set.
\<close>

definition saveQuizResult :: "Env \<Rightarrow> AppState \<Rightarrow> AppState" where
  "saveQuizResult E s =
     (case selectedMaterial s of
        None \<Rightarrow> s
      | Some sel \<Rightarrow>
          (case content sel of
             None \<Rightarrow> s
           | Some c \<Rightarrow>
               if \<not> truthy (quizQuestions c) then s
               else
                 (case quizQuestions c of
                    JArray qs \<Rightarrow>
                      (case countCorrect (quizAnswers s) 0 qs of
                         None \<Rightarrow> s
                       | Some correct \<Rightarrow>
                           (let newResult =
                                  \<lparr>timestamp = current_date E,
                                   totalQuestions = length qs,
                                   correctAnswers = correct,
                                   percentage =
                                     (if length qs = 0 then None
                                      else Some (of_nat correct / of_nat (length qs) * 100))\<rparr>;
                                appendResult =
                                  (\<lambda>m. m\<lparr>quizResults :=
                                     Some ((case quizResults m of None \<Rightarrow> [] | Some rs \<Rightarrow> rs) @ [newResult])\<rparr>)
                            in setSelectedMaterial (\<lambda>_. Some (appendResult sel))
                                 (setMaterials (updateById (material_id sel) appendResult) s)))
                  | _ \<Rightarrow> s)))"

text \<open>
  \<open>newQuestions.length > 0\<close> on the value the quiz parse left: an array or a string
  by its length, an object by its \<open>length\<close> property (compared by the platform), a
  number or a boolean has none.
\<close>

definition lengthPositive :: "Env \<Rightarrow> json \<Rightarrow> bool" where
  "lengthPositive E v =
     (case v of
        JArray xs \<Rightarrow> xs \<noteq> []
      | JString str \<Rightarrow> str \<noteq> []
      | JObject kvs \<Rightarrow> (case map_of kvs ''length'' of None \<Rightarrow> False | Some l \<Rightarrow> js_gt_zero E l)
      | _ \<Rightarrow> False)"

definition generateNewQuestions :: "Env \<Rightarrow> AppState \<Rightarrow> AppState" where
  "generateNewQuestions E s =
     (case selectedMaterial s of
        None \<Rightarrow> s
      | Some sel \<Rightarrow>
          (case detectedLanguage sel of
             None \<Rightarrow> s
           | Some language \<Rightarrow>
               if extractedText sel = [] \<or> language = [] then s
               else
                 (let s1 = s\<lparr>isGeneratingQuestions := True\<rparr>;
                      s3 =
                        (case mutateAsync E NewQuestions
                                (newQuestionsInput (extractedText sel) language) s1 of
                           (Inl e, s2) \<Rightarrow> s2
                         | (Inr quizResponse, s2) \<Rightarrow>
                             (let newQuestions = parseQuiz (JSON_parse E) (response_content quizResponse) in
                              if lengthPositive E newQuestions
                              then
                                (let s2a = setMaterials
                                       (map (\<lambda>m. case content m of
                                                    Some c \<Rightarrow>
                                                      if material_id m = material_id sel
                                                      then m\<lparr>content := Some (c\<lparr>quizQuestions := newQuestions\<rparr>)\<rparr>
                                                      else m
                                                  | None \<Rightarrow> m)) s2;
                                     s2b = (case content sel of
                                              Some c \<Rightarrow>
                                                setSelectedMaterial
                                                  (\<lambda>_. Some (sel\<lparr>content := Some (c\<lparr>quizQuestions := newQuestions\<rparr>)\<rparr>)) s2a
                                            | None \<Rightarrow> s2a)
                                 in s2b\<lparr>quizAnswers := (\<lambda>_. NoAnswer), revealedAnswers := (\<lambda>_. False)\<rparr>)
                              else s2))
                  in s3\<lparr>isGeneratingQuestions := False\<rparr>)))"

section \<open>Sorted view\<close>

text \<open>
  \<open>Array.prototype.sort(cmp)\<close> is stable. For a consistent comparator its result is
  the one stable ordering of the elements, which insertion from the right computes;
  for an inconsistent one the order is left to the engine, and nothing is stated
  about it below. A comparator result that is not a number counts as 0.
\<close>

fun insertSorted :: "('a \<Rightarrow> 'a \<Rightarrow> int) \<Rightarrow> 'a \<Rightarrow> 'a list \<Rightarrow> 'a list" where
  "insertSorted cmp x [] = [x]"
| "insertSorted cmp x (y # ys) = (if cmp x y \<le> 0 then x # y # ys else y # insertSorted cmp x ys)"

definition array_sort :: "('a \<Rightarrow> 'a \<Rightarrow> int) \<Rightarrow> 'a list \<Rightarrow> 'a list" where
  "array_sort cmp xs = foldr (insertSorted cmp) xs []"









text \<open>
  \<open>sort\<close> works in place, so whether the stored list is touched depends on which
  array is sorted. Arrays live in a store of cells; \<open>spread\<close> is \<open>[...xs]\<close>, a new
  array with the elements of the old; \<open>sortInPlace\<close> is \<open>xs.sort(cmp)\<close>.
\<close>

record ArrayStore =
  cells :: "nat \<rightharpoonup> material list"
  next_ref :: nat






section \<open>Notions used in the statements\<close>

text \<open>The events a run added to the history: those of \<open>s'\<close> after those of \<open>s\<close>.\<close>

definition newEvents :: "AppState \<Rightarrow> AppState \<Rightarrow> event list" where
  "newEvents s s' = drop (length (trace s)) (trace s')"

fun progressValues :: "event list \<Rightarrow> nat list" where
  "progressValues [] = []"
| "progressValues (ProgressSet n # es) = n # progressValues es"
| "progressValues (_ # es) = progressValues es"

fun materialsValues :: "event list \<Rightarrow> material list list" where
  "materialsValues [] = []"
| "materialsValues (MaterialsSet ms # es) = ms # materialsValues es"
| "materialsValues (_ # es) = materialsValues es"

fun isCountSet :: "event \<Rightarrow> bool" where
  "isCountSet (CountSet _) = True"
| "isCountSet _ = False"

text \<open>What \<open>mutateAsync\<close> resolves to for the \<open>k\<close>-th request, once its checks pass.\<close>

definition chatReply :: "Env \<Rightarrow> nat \<Rightarrow> GPTChatInput \<Rightarrow> GPTChatResponse result" where
  "chatReply E k input =
     (case createChatCompletion E k (requestData input) of
        Inl e \<Rightarrow> Inl e
      | Inr response \<Rightarrow> readResponse response)"

text \<open>The input each call site builds from the text and the language it is given.\<close>

fun stageInput :: "Stage \<Rightarrow> LessonLength \<Rightarrow> string \<Rightarrow> string \<Rightarrow> GPTChatInput" where
  "stageInput DetectLanguage len text language = detectLanguageInput text"
| "stageInput SuggestTitle len text language = titleInput text language"
| "stageInput Categorize len text language = categoryInput text language"
| "stageInput Lessons len text language = lessonsInput len text language"
| "stageInput Quiz len text language = quizInput text language"
| "stageInput Summary len text language = summaryInput text language"
| "stageInput Flashcards len text language = flashcardsInput text language"
| "stageInput NewQuestions len text language = newQuestionsInput text language"

text \<open>The call sites in the order \<open>handleFileUpload\<close> reaches them.\<close>

definition pipelineOrder :: "Stage list" where
  "pipelineOrder = [DetectLanguage, Lessons, Quiz, Summary, Flashcards, SuggestTitle, Categorize]"

definition expectedCalls :: "LessonLength \<Rightarrow> string \<Rightarrow> string \<Rightarrow> (Stage \<times> ChatRequest) list" where
  "expectedCalls len text language =
     map (\<lambda>st. (st, requestData (stageInput st len text language))) pipelineOrder"

text \<open>The text a run extracts and the language it detects, \<open>[]\<close> where the run fails
  before it has them.\<close>

definition runText :: "Env \<Rightarrow> File \<Rightarrow> string" where
  "runText E file =
     (case uploadFile E file of
        Inl _ \<Rightarrow> []
      | Inr url \<Rightarrow> (case extractText E file url of Inl _ \<Rightarrow> [] | Inr text \<Rightarrow> text))"

definition runLanguage :: "Env \<Rightarrow> nat \<Rightarrow> string \<Rightarrow> string" where
  "runLanguage E k text =
     (case chatReply E k (detectLanguageInput text) of
        Inl _ \<Rightarrow> []
      | Inr response \<Rightarrow> trim (response_content response))"

text \<open>The invariant of the data model on one material.\<close>

definition material_ok :: "material \<Rightarrow> bool" where
  "material_ok m =
     (((content m \<noteq> None) = (processingStatus m = Completed)) \<and>
      ((error m \<noteq> None) = (processingStatus m = Failed)))"

definition allOk :: "material list \<Rightarrow> bool" where
  "allOk ms = (\<forall>m \<in> set ms. material_ok m)"

text \<open>While the run that owns the identifier \<open>i\<close> has neither finished nor failed: every
  material satisfies the invariant and the ones named \<open>i\<close> hold neither content nor
  error.\<close>

definition inProgress :: "string \<Rightarrow> material list \<Rightarrow> bool" where
  "inProgress i ms =
     (\<forall>m \<in> set ms. material_ok m \<and> (material_id m = i \<longrightarrow> content m = None \<and> error m = None))"

text \<open>A material with its quiz questions blanked: two materials agree on everything
  but \<open>content.quizQuestions\<close> when their images agree.\<close>

definition eraseQuiz :: "material \<Rightarrow> material" where
  "eraseQuiz m = m\<lparr>content := map_option (\<lambda>c. c\<lparr>quizQuestions := JNull\<rparr>) (content m)\<rparr>"

definition datesValid :: "material \<Rightarrow> bool" where
  "datesValid m =
     (uploadedAt m \<noteq> InvalidDate \<and>
      (case quizResults m of None \<Rightarrow> True | Some rs \<Rightarrow> list_all (\<lambda>r. timestamp r \<noteq> InvalidDate) rs))"






section \<open>Example inputs\<close>

text \<open>
  A backend that answers the seven requests of one upload in turn: a language with
  white space around it, lessons that are not JSON, an empty object for the quiz, a
  summary, \<open>null\<close> for the flashcards, a title and a category. Any later request gets
  one quiz question.
\<close>

definition example_reply :: "nat \<Rightarrow> string" where
  "example_reply k =
     (if k = 0 then '' English\<newline>''
      else if k = 1 then ''not json''
      else if k = 2 then ''{}''
      else if k = 3 then ''Plants turn light into sugar.''
      else if k = 4 then ''null''
      else if k = 5 then ''Photosynthesis in brief''
      else if k = 6 then ''Science''
      else ''{\"questions\": [1]}'')"

definition example_env :: Env where
  "example_env =
     \<lparr>JSON_parse = example_JSON_parse,
      js_gt_zero = (\<lambda>_. False),
      createChatCompletion = (\<lambda>k request.
         Inr (Data \<lparr>data_id = ''chatcmpl-1'', data_model = req_model request,
                    choices = [\<lparr>message_content = Some (example_reply k), finish_reason = ''stop''\<rparr>],
                    prompt_tokens = 0, completion_tokens = 0, total_tokens = 0\<rparr>)),
      uploadFile = (\<lambda>_. Inr ''https://files.example/notes.txt''),
      extractTextFromPDF = (\<lambda>_. Inl NonError),
      extractTextFromFile = (\<lambda>_. Inr ''Photosynthesis turns light into sugar.''),
      date_now = ''1700000000000'',
      math_random = ''0.25'',
      current_date = ValidDate 1700000000000,
      today = ''Tue Nov 14 2023''\<rparr>"

definition example_file :: File where
  "example_file = \<lparr>file_name = ''notes.txt'', file_type = ''text/plain''\<rparr>"

text \<open>A material that an earlier upload completed.\<close>

definition example_material :: material where
  "example_material =
     \<lparr>material_id = ''1690000000000-0.5'',
      fileName = ''cells.pdf'',
      fileType = ''application/pdf'',
      fileUrl = ''https://files.example/cells.pdf'',
      uploadedAt = ValidDate 1690000000000,
      extractedText = ''Cells are the units of life.'',
      detectedLanguage = Some ''English'',
      suggestedTitle = Some ''Cells'',
      thematicCategory = Some ''Science'',
      content = Some \<lparr>microLessons = JArray [overviewLesson ''Cells''],
                      quizQuestions = JArray [],
                      summary = ''Cells.'',
                      flashcards = JArray [],
                      content_detectedLanguage = ''English''\<rparr>,
      processingStatus = Completed,
      error = None,
      quizResults = Some [\<lparr>timestamp = ValidDate 1690000100000, totalQuestions = 5,
                            correctAnswers = 4, percentage = Some 80\<rparr>]\<rparr>"

text \<open>Three materials: two in the category Science, one in History.\<close>

definition example_materials :: "material list" where
  "example_materials =
     [example_material,
      example_material\<lparr>material_id := ''1695000000000-0.75'', fileName := ''atoms.txt'',
                        uploadedAt := ValidDate 1695000000000,
                        thematicCategory := Some ''History''\<rparr>,
      example_material\<lparr>material_id := ''1699000000000-0.125'', fileName := ''biology.txt'',
                        uploadedAt := ValidDate 1699000000000\<rparr>]"

text \<open>A session holding them, the first one selected from the list.\<close>

definition example_state :: AppState where
  "example_state =
     (initialState Map.empty)\<lparr>materials := example_materials,
                               selectedMaterial := Some example_material\<rparr>"

text \<open>The example backend answering every request with one quiz question.\<close>

definition example_regen_env :: Env where
  "example_regen_env = example_env\<lparr>createChatCompletion := (\<lambda>k. createChatCompletion example_env 7)\<rparr>"

text \<open>A fresh session after the one material was added to its list and the render
  committed; no material is selected.\<close>

definition example_saved_state :: AppState where
  "example_saved_state =
     afterRender Commits (setMaterials (\<lambda>prev. prev @ [example_material]) (initialState Map.empty))"




section \<open>Properties of the response parsing\<close>

text \<open>
  Claim C2, amended. When the completion text is not JSON, or is the JSON text
  \<open>null\<close>, the lessons parse returns the one-element list holding the raw text under
  the title \<open>Overview\<close>, and the quiz and flashcard parses return the empty list. When
  the text is JSON for any other value that lacks the expected property, all three
  parses return the empty list: the lessons parse does not wrap the raw text then.
  No parse raises: each is a total function whose \<open>catch\<close> covers both throws of its
  \<open>try\<close> body.
\<close>

theorem parse_fallback_policy:
  "(parse text = None \<or> parse text = Some JNull \<longrightarrow>
      parseLessons parse text = JArray [overviewLesson text] \<and>
      parseQuiz parse text = JArray [] \<and>
      parseFlashcards parse text = JArray []) \<and>
   (\<forall>d. parse text = Some d \<and> d \<noteq> JNull \<longrightarrow>
      (getProperty d ''lessons'' = Inr None \<longrightarrow> parseLessons parse text = JArray []) \<and>
      (getProperty d ''questions'' = Inr None \<longrightarrow> parseQuiz parse text = JArray []) \<and>
      (getProperty d ''flashcards'' = Inr None \<longrightarrow> parseFlashcards parse text = JArray []))"
  by (auto simp: parseLessons_def parseQuiz_def parseFlashcards_def tryParseField_def orEmptyArray_def)

text \<open>The policy on a text that is not JSON and on the empty object.\<close>

theorem parse_fallback_policy_witness:
  "parseLessons example_JSON_parse ''not json'' = JArray [overviewLesson ''not json''] \<and>
   parseQuiz example_JSON_parse ''not json'' = JArray [] \<and>
   parseFlashcards example_JSON_parse ''not json'' = JArray [] \<and>
   parseLessons example_JSON_parse ''{}'' = JArray [] \<and>
   parseQuiz example_JSON_parse ''{}'' = JArray [] \<and>
   parseFlashcards example_JSON_parse ''{}'' = JArray []"
proof -
  have invalid: "example_JSON_parse ''not json'' = None"
    by (simp add: example_JSON_parse_def)
  have valid: "example_JSON_parse ''{}'' = Some (JObject []) \<and> JObject [] \<noteq> JNull"
    by (simp add: example_JSON_parse_def)
  have missing: "getProperty (JObject []) k = Inr None" for k
    by simp
  show ?thesis
    using parse_fallback_policy [of example_JSON_parse "''not json''"]
      parse_fallback_policy [of example_JSON_parse "''{}''"] invalid valid missing
    by blast
qed

text \<open>
  Claim C2 as stated fails on the completion text \<open>{}\<close>: it is JSON without a
  \<open>lessons\<close> property, and the lessons parse returns the empty list, not the list
  wrapping the raw text.
\<close>

theorem lessons_missing_field_counterexample:
  "example_JSON_parse ''{}'' = Some (JObject []) \<and>
   getProperty (JObject []) ''lessons'' = Inr None \<and>
   parseLessons example_JSON_parse ''{}'' = JArray [] \<and>
   parseLessons example_JSON_parse ''{}'' \<noteq> JArray [overviewLesson ''{}'']"
  by (simp add: example_JSON_parse_def parseLessons_def tryParseField_def orEmptyArray_def)

section \<open>Lemmas on runs\<close>

lemma chatCalls_append [simp]: "chatCalls (xs @ ys) = chatCalls xs @ chatCalls ys"
  by (induction xs rule: chatCalls.induct) simp_all

lemma materialsValues_append [simp]:
  "materialsValues (xs @ ys) = materialsValues xs @ materialsValues ys"
  by (induction xs rule: materialsValues.induct) simp_all

lemma progressValues_append [simp]:
  "progressValues (xs @ ys) = progressValues xs @ progressValues ys"
  by (induction xs rule: progressValues.induct) simp_all

lemma validate_inputs [simp]:
  "validateInput (detectLanguageInput text) = None"
  "validateInput (titleInput text lang) = None"
  "validateInput (categoryInput text lang) = None"
  "validateInput (lessonsInput len text lang) = None"
  "validateInput (quizInput text lang) = None"
  "validateInput (summaryInput text lang) = None"
  "validateInput (flashcardsInput text lang) = None"
  "validateInput (newQuestionsInput text lang) = None"
  by (simp_all add: validateInput_def detectLanguageInput_def titleInput_def categoryInput_def
      lessonsInput_def quizInput_def summaryInput_def flashcardsInput_def newQuestionsInput_def)

lemma mutateAsync_valid:
  "validateInput input = None \<Longrightarrow>
   mutateAsync E st input s =
     (chatReply E (length (chatCalls (trace s))) input,
      s\<lparr>trace := trace s @ [ChatCall st (requestData input)]\<rparr>)"
  by (simp add: mutateAsync_def chatReply_def Let_def split: sum.splits)

lemma keys_distinct [simp]: "STORAGE_KEY \<noteq> UPLOAD_LIMIT_KEY" "UPLOAD_LIMIT_KEY \<noteq> STORAGE_KEY"
  by (simp_all add: STORAGE_KEY_def UPLOAD_LIMIT_KEY_def)

lemmas run_defs = processUpload_def generateLearningContent_def detectLanguage_def
    generateSuggestedTitle_def categorizeContent_def await_def uploadMutation_def

lemmas setter_defs = setProcessingProgress_def setMaterials_def setSelectedMaterial_def

text \<open>handleFileUpload once the gate and the format check pass.\<close>

lemma handleFileUpload_admitted:
  assumes "(case currentUser s of Some u \<Rightarrow> isPremium u | None \<Rightarrow> False) \<or> canUpload s"
    and "isValidFormat fl"
    and "processUpload E fl (newMaterialId E)
           (incrementUploadCount E (setProcessingProgress 0
             (setSelectedMaterial (\<lambda>_. Some (newMaterial E fl))
               (setMaterials (\<lambda>prev. prev @ [newMaterial E fl]) s)))) = (r, s')"
  shows "handleFileUpload E (Some fl) s =
      (case r of Inr _ \<Rightarrow> s'
       | Inl e \<Rightarrow> setMaterials (updateById (newMaterialId E)
           (\<lambda>m. m\<lparr>processingStatus := Failed, error := Some (errorMessage e)\<rparr>)) s')"
  using assms by (auto simp: handleFileUpload_def Let_def split: sum.splits)

lemma handleFileUpload_cases:
  "handleFileUpload E fo s = s \<or>
   handleFileUpload E fo s = s\<lparr>showSubscriptionDialog := True\<rparr> \<or>
   handleFileUpload E fo s = s\<lparr>trace := trace s @ [Alert ''Nur PDF, PPT und Text-Dateien sind erlaubt.'']\<rparr> \<or>
   (\<exists>fl. fo = Some fl \<and> isValidFormat fl \<and>
      ((case currentUser s of Some u \<Rightarrow> isPremium u | None \<Rightarrow> False) \<or> canUpload s))"
  by (auto simp: handleFileUpload_def Let_def split: option.splits)

subsection \<open>The example inputs\<close>

lemma example_valid: "isValidFormat example_file"
  by (simp add: isValidFormat_def example_file_def toLowerCase_def toLowerChar_def startsWith_def
      endsWith_def js_includes_def Let_def)

lemma example_uploadFile: "uploadFile example_env fl = Inr ''https://files.example/notes.txt''"
  by (simp add: example_env_def)

lemma example_extract:
  "extractText example_env example_file u = Inr ''Photosynthesis turns light into sugar.''"
  by (simp add: extractText_def example_env_def example_file_def startsWith_def endsWith_def
      js_includes_def)

lemma example_chatReply:
  "chatReply example_env k input =
     Inr \<lparr>response_content = example_reply k, response_id = ''chatcmpl-1'',
          response_model = req_model (requestData input), promptTokens = 0,
          completionTokens = 0, totalTokens = 0, finishReason = ''stop''\<rparr>"
  by (simp add: chatReply_def example_env_def readResponse_def example_reply_def)

lemma example_trim: "trim (example_reply 0) = ''English''"
  by (simp add: example_reply_def trim_def isWhiteSpace_def)

lemmas example_facts = example_valid example_uploadFile example_extract example_chatReply

section \<open>Properties of the upload limit\<close>

text \<open>
  Claim C8. In a session that is not premium (no premium user and no premium
  subscription) whose upload count of the day is 3, picking a file is stopped at the
  gate: the materials list is unchanged, no effect is recorded (no upload, no chat
  request, no counter update), the counter is still 3 and the storage is unchanged.
  The subscription dialog is shown.
\<close>

theorem upload_blocked_at_limit:
  assumes "\<not> (case currentUser s of Some u \<Rightarrow> isPremium u | None \<Rightarrow> False)"
    and "\<not> subscription_isPremium s"
    and "todayUploadCount s = 3"
  shows "materials (handleFileUpload E (Some fl) s) = materials s \<and>
         newEvents s (handleFileUpload E (Some fl) s) = [] \<and>
         todayUploadCount (handleFileUpload E (Some fl) s) = 3 \<and>
         localStorage (handleFileUpload E (Some fl) s) = localStorage s \<and>
         showSubscriptionDialog (handleFileUpload E (Some fl) s)"
  using assms
  by (simp add: handleFileUpload_def canUpload_def FREE_DAILY_LIMIT_def newEvents_def)

text \<open>The gate on the example file with the counter at 3.\<close>

theorem upload_blocked_at_limit_witness:
  "materials (handleFileUpload example_env (Some example_file)
       ((initialState Map.empty)\<lparr>todayUploadCount := 3\<rparr>)) = [] \<and>
   trace (handleFileUpload example_env (Some example_file)
       ((initialState Map.empty)\<lparr>todayUploadCount := 3\<rparr>)) = [] \<and>
   todayUploadCount (handleFileUpload example_env (Some example_file)
       ((initialState Map.empty)\<lparr>todayUploadCount := 3\<rparr>)) = 3"
  using upload_blocked_at_limit [of "(initialState Map.empty)\<lparr>todayUploadCount := 3\<rparr>"
      example_env example_file]
  by (simp add: initialState_def newEvents_def)

lemma processUpload_count:
  "case processUpload E fl i s of
     (r, s') \<Rightarrow>
       todayUploadCount s' = todayUploadCount s \<and>
       localStorage s' UPLOAD_LIMIT_KEY = localStorage s UPLOAD_LIMIT_KEY \<and>
       (\<exists>rest. trace s' = trace s @ UploadCall fl # rest \<and> (\<forall>e \<in> set rest. \<not> isCountSet e))"
  unfolding run_defs
  by (simp add: mutateAsync_valid setter_defs saveMaterialsEffect_def Let_def
      split: sum.splits prod.splits)

text \<open>
  Claim C10. When an upload attempt passes the gate and the format check, the counter
  ends the run one higher than it began, whatever the upload, the extraction and the
  chat requests answer; the storage holds the new count under today's date; and the
  run's effects begin with the new material, progress 0, the one update of the
  counter and then the upload, with no further update of the counter after it.
\<close>

theorem upload_counted_once:
  assumes gate: "(case currentUser s of Some u \<Rightarrow> isPremium u | None \<Rightarrow> False) \<or> canUpload s"
    and format: "isValidFormat fl"
  shows "todayUploadCount (handleFileUpload E (Some fl) s) = todayUploadCount s + 1 \<and>
         localStorage (handleFileUpload E (Some fl) s) UPLOAD_LIMIT_KEY =
           Some (StoredLimits \<lparr>limits_date = today E, limits_count = todayUploadCount s + 1\<rparr>) \<and>
         (\<exists>rest. newEvents s (handleFileUpload E (Some fl) s) =
            [MaterialsSet (materials s @ [newMaterial E fl]), ProgressSet 0,
             CountSet (todayUploadCount s + 1), UploadCall fl] @ rest \<and>
            (\<forall>e \<in> set rest. \<not> isCountSet e))"
proof -
  define s4 where "s4 = incrementUploadCount E (setProcessingProgress 0
      (setSelectedMaterial (\<lambda>_. Some (newMaterial E fl))
        (setMaterials (\<lambda>prev. prev @ [newMaterial E fl]) s)))"
  obtain r s' where run: "processUpload E fl (newMaterialId E) s4 = (r, s')"
    by (cases "processUpload E fl (newMaterialId E) s4")
  have s4: "todayUploadCount s4 = todayUploadCount s + 1"
    "localStorage s4 UPLOAD_LIMIT_KEY =
       Some (StoredLimits \<lparr>limits_date = today E, limits_count = todayUploadCount s + 1\<rparr>)"
    "trace s4 = trace s @ [MaterialsSet (materials s @ [newMaterial E fl]), ProgressSet 0,
       CountSet (todayUploadCount s + 1)]"
    by (simp_all add: s4_def incrementUploadCount_def setter_defs Let_def)
  from processUpload_count [where E = E and fl = fl and i = "newMaterialId E" and s = s4] run
  obtain rest where kept: "todayUploadCount s' = todayUploadCount s4"
    "localStorage s' UPLOAD_LIMIT_KEY = localStorage s4 UPLOAD_LIMIT_KEY"
    "trace s' = trace s4 @ UploadCall fl # rest" "\<forall>e \<in> set rest. \<not> isCountSet e"
    by auto
  have final: "handleFileUpload E (Some fl) s =
      (case r of Inr _ \<Rightarrow> s'
       | Inl e \<Rightarrow> setMaterials (updateById (newMaterialId E)
           (\<lambda>m. m\<lparr>processingStatus := Failed, error := Some (errorMessage e)\<rparr>)) s')"
    using handleFileUpload_admitted [OF gate format] run unfolding s4_def by blast
  show ?thesis
  proof (cases r)
    case (Inr u)
    with final kept s4 show ?thesis by (simp add: newEvents_def)
  next
    case (Inl e)
    with final kept s4 show ?thesis
      by (simp add: newEvents_def setMaterials_def saveMaterialsEffect_def Let_def)
  qed
qed

text \<open>A run whose upload fails still uses up a slot: the counter goes from 2 to 3.\<close>

theorem upload_counted_once_witness:
  "todayUploadCount (handleFileUpload (example_env\<lparr>uploadFile := (\<lambda>_. Inl (ErrorObj ''No file URL returned from server''))\<rparr>)
       (Some example_file) ((initialState Map.empty)\<lparr>todayUploadCount := 2\<rparr>)) = 3"
proof -
  have gate: "(case currentUser ((initialState Map.empty)\<lparr>todayUploadCount := 2\<rparr>) of
                 Some u \<Rightarrow> isPremium u | None \<Rightarrow> False) \<or>
              canUpload ((initialState Map.empty)\<lparr>todayUploadCount := 2\<rparr>)"
    by (simp add: canUpload_def initialState_def FREE_DAILY_LIMIT_def)
  show ?thesis
    using upload_counted_once [OF gate example_valid,
        of "example_env\<lparr>uploadFile := (\<lambda>_. Inl (ErrorObj ''No file URL returned from server''))\<rparr>"]
    by (simp add: initialState_def)
qed

section \<open>Properties of the progress indicator\<close>

text \<open>
  Claim C4 fails on every run that reaches the pipeline. On the example upload the
  values set as progress are 0, 10 after the upload and 20 after the extraction by
  \<open>handleFileUpload\<close>, then 10 again at the start of \<open>generateLearningContent\<close>, then
  25, 40, 60, 80 and 100: the value 10 follows 20.
\<close>

theorem progress_drops_after_extraction:
  "progressValues (trace (handleFileUpload example_env (Some example_file) (initialState Map.empty)))
     = [0, 10, 20, 10, 25, 40, 60, 80, 100]"
  unfolding handleFileUpload_def run_defs
  by (simp add: example_facts mutateAsync_valid canUpload_def
      FREE_DAILY_LIMIT_def initialState_def incrementUploadCount_def setter_defs Let_def)

text \<open>
  What does hold of the progress values: those that \<open>generateLearningContent\<close> sets
  never decrease, and every value that a run of \<open>handleFileUpload\<close> sets is at most
  100.
\<close>

lemma pipeline_progress_sorted:
  "sorted (progressValues (newEvents s (snd (generateLearningContent E txt len s)))) \<and>
   list_all (\<lambda>n. n \<le> 100) (progressValues (newEvents s (snd (generateLearningContent E txt len s))))"
  unfolding generateLearningContent_def detectLanguage_def await_def newEvents_def
  by (simp add: mutateAsync_valid setProcessingProgress_def split: sum.splits prod.splits)

lemma processUpload_progress:
  "case processUpload E fl i s of
     (r, s') \<Rightarrow> \<exists>es. trace s' = trace s @ es \<and> list_all (\<lambda>n. n \<le> 100) (progressValues es)"
  unfolding run_defs
  by (simp add: mutateAsync_valid setter_defs Let_def split: sum.splits prod.splits)

lemma progress_values_in_range:
  "list_all (\<lambda>n. n \<le> 100) (progressValues (newEvents s (handleFileUpload E fo s)))"
proof -
  consider (same) "handleFileUpload E fo s = s"
    | (dialog) "handleFileUpload E fo s = s\<lparr>showSubscriptionDialog := True\<rparr>"
    | (alert) "handleFileUpload E fo s = s\<lparr>trace := trace s @ [Alert ''Nur PDF, PPT und Text-Dateien sind erlaubt.'']\<rparr>"
    | (run) fl where "fo = Some fl" "isValidFormat fl"
        "(case currentUser s of Some u \<Rightarrow> isPremium u | None \<Rightarrow> False) \<or> canUpload s"
    using handleFileUpload_cases [of E fo s] by blast
  then show ?thesis
  proof cases
    case run
    define s4 where "s4 = incrementUploadCount E (setProcessingProgress 0
      (setSelectedMaterial (\<lambda>_. Some (newMaterial E fl))
        (setMaterials (\<lambda>prev. prev @ [newMaterial E fl]) s)))"
    obtain r s' where res: "processUpload E fl (newMaterialId E) s4 = (r, s')"
      by (cases "processUpload E fl (newMaterialId E) s4")
    have s4: "trace s4 = trace s @ [MaterialsSet (materials s @ [newMaterial E fl]), ProgressSet 0,
         CountSet (todayUploadCount s + 1)]"
      by (simp add: s4_def incrementUploadCount_def setter_defs Let_def)
    from processUpload_progress [where E = E and fl = fl and i = "newMaterialId E" and s = s4] res
    obtain es where es: "trace s' = trace s4 @ es" "list_all (\<lambda>n. n \<le> 100) (progressValues es)"
      by auto
    have final: "handleFileUpload E fo s =
      (case r of Inr _ \<Rightarrow> s'
       | Inl e \<Rightarrow> setMaterials (updateById (newMaterialId E)
           (\<lambda>m. m\<lparr>processingStatus := Failed, error := Some (errorMessage e)\<rparr>)) s')"
      using handleFileUpload_admitted [OF run(3) run(2)] res run(1) unfolding s4_def by blast
    show ?thesis
      using final es s4 by (cases r) (simp_all add: newEvents_def setMaterials_def Let_def)
  qed (simp_all add: newEvents_def)
qed

section \<open>Properties of the material lifecycle\<close>

lemma inProgress_allOk: "inProgress i ms \<Longrightarrow> allOk ms"
  by (simp add: inProgress_def allOk_def)

lemma inProgress_update [simp]:
  assumes "inProgress i ms"
    and "\<forall>m. content (f m) = content m \<and> error (f m) = error m \<and> material_id (f m) = material_id m \<and>
             (processingStatus (f m) = processingStatus m \<or> processingStatus (f m) = Processing)"
  shows "inProgress i (updateById i f ms)"
  using assms unfolding inProgress_def updateById_def material_ok_def
  by (auto; metis ProcessingStatus.distinct)

lemma allOk_update [simp]:
  assumes "inProgress i ms"
    and "\<forall>m. content (f m) = content m \<and> error (f m) = error m \<and> material_id (f m) = material_id m \<and>
             (processingStatus (f m) = processingStatus m \<or> processingStatus (f m) = Processing)"
  shows "allOk (updateById i f ms)"
  using assms by (intro inProgress_allOk [of i] inProgress_update)

lemma allOk_completed [simp]:
  "inProgress i ms \<Longrightarrow> allOk (updateById i (\<lambda>m. m\<lparr>content := Some c, processingStatus := Completed\<rparr>) ms)"
  unfolding inProgress_def updateById_def material_ok_def allOk_def by auto

lemma allOk_failed [simp]:
  "inProgress i ms \<Longrightarrow> allOk (updateById i (\<lambda>m. m\<lparr>processingStatus := Failed, error := Some e\<rparr>) ms)"
  unfolding inProgress_def updateById_def material_ok_def allOk_def by auto

lemma inProgress_created:
  assumes "allOk ms" and "newMaterialId E \<notin> material_id ` set ms"
  shows "inProgress (newMaterialId E) (ms @ [newMaterial E fl])"
  using assms unfolding inProgress_def allOk_def material_ok_def newMaterial_def
  by (auto simp: image_iff)

lemma processUpload_invariant:
  assumes "inProgress i (materials s)"
  shows "case processUpload E fl i s of
     (r, s') \<Rightarrow>
       (\<exists>es. trace s' = trace s @ es \<and> list_all allOk (materialsValues es)) \<and>
       (case r of Inr _ \<Rightarrow> allOk (materials s') | Inl _ \<Rightarrow> inProgress i (materials s'))"
  using assms unfolding run_defs
  by (simp add: mutateAsync_valid setter_defs Let_def split: sum.splits prod.splits)

lemma handleFileUpload_invariant:
  assumes ok: "allOk (materials s)" and fresh: "newMaterialId E \<notin> material_id ` set (materials s)"
  shows "list_all allOk (materialsValues (newEvents s (handleFileUpload E fo s))) \<and>
         allOk (materials (handleFileUpload E fo s))"
proof -
  consider (same) "handleFileUpload E fo s = s"
    | (dialog) "handleFileUpload E fo s = s\<lparr>showSubscriptionDialog := True\<rparr>"
    | (alert) "handleFileUpload E fo s = s\<lparr>trace := trace s @ [Alert ''Nur PDF, PPT und Text-Dateien sind erlaubt.'']\<rparr>"
    | (run) fl where "fo = Some fl" "isValidFormat fl"
        "(case currentUser s of Some u \<Rightarrow> isPremium u | None \<Rightarrow> False) \<or> canUpload s"
    using handleFileUpload_cases [of E fo s] by blast
  then show ?thesis
  proof cases
    case same
    with ok show ?thesis by (simp add: newEvents_def)
  next
    case dialog
    with ok show ?thesis by (simp add: newEvents_def)
  next
    case alert
    with ok show ?thesis by (simp add: newEvents_def)
  next
    case run
    define s4 where "s4 = incrementUploadCount E (setProcessingProgress 0
      (setSelectedMaterial (\<lambda>_. Some (newMaterial E fl))
        (setMaterials (\<lambda>prev. prev @ [newMaterial E fl]) s)))"
    obtain r s' where res: "processUpload E fl (newMaterialId E) s4 = (r, s')"
      by (cases "processUpload E fl (newMaterialId E) s4")
    have created: "inProgress (newMaterialId E) (materials s @ [newMaterial E fl])"
      using ok fresh by (rule inProgress_created)
    have s4: "materials s4 = materials s @ [newMaterial E fl]"
      "trace s4 = trace s @ [MaterialsSet (materials s @ [newMaterial E fl]), ProgressSet 0,
         CountSet (todayUploadCount s + 1)]"
      by (simp_all add: s4_def incrementUploadCount_def setter_defs Let_def)
    from processUpload_invariant [where E = E and fl = fl and i = "newMaterialId E" and s = s4]
      created s4 res
    obtain es where es: "trace s' = trace s4 @ es" "list_all allOk (materialsValues es)"
      and fin: "case r of Inr _ \<Rightarrow> allOk (materials s') | Inl _ \<Rightarrow> inProgress (newMaterialId E) (materials s')"
      by auto
    have final: "handleFileUpload E fo s =
      (case r of Inr _ \<Rightarrow> s'
       | Inl e \<Rightarrow> setMaterials (updateById (newMaterialId E)
           (\<lambda>m. m\<lparr>processingStatus := Failed, error := Some (errorMessage e)\<rparr>)) s')"
      using handleFileUpload_admitted [OF run(3) run(2)] res run(1) unfolding s4_def by blast
    show ?thesis
    proof (cases r)
      case (Inr u)
      with final es s4 fin created show ?thesis
        by (simp add: newEvents_def inProgress_allOk [OF created])
    next
      case (Inl e)
      with final es s4 fin created show ?thesis
        by (simp add: newEvents_def setMaterials_def Let_def inProgress_allOk [OF created])
    qed
  qed
qed

lemma allOk_regenerated:
  "allOk ms \<Longrightarrow>
   allOk (map (\<lambda>m. case content m of
                     Some c \<Rightarrow> if material_id m = i then m\<lparr>content := Some (c\<lparr>quizQuestions := q\<rparr>)\<rparr> else m
                   | None \<Rightarrow> m) ms)"
  unfolding allOk_def material_ok_def by (auto split: option.splits)

lemma generateNewQuestions_invariant:
  assumes ok: "allOk (materials s)"
  shows "list_all allOk (materialsValues (newEvents s (generateNewQuestions E s))) \<and>
         allOk (materials (generateNewQuestions E s))"
  using ok allOk_regenerated [OF ok]
  by (simp add: generateNewQuestions_def newEvents_def mutateAsync_valid setter_defs Let_def
      split: option.splits sum.splits)

text \<open>
  Claim C1. Take a materials list in which every material has content exactly when
  its status is completed and an error exactly when its status is error, and an
  identifier for the new material that no material of the list bears. Then the same
  holds of every material in every list that \<open>handleFileUpload\<close> sets on its way
  (creation, upload, extracted text, language with title and category, content, or the
  recorded error) and in the list it ends with; and the same holds of the list that
  \<open>generateNewQuestions\<close> sets and ends with. The run is taken alone, with no other
  handler in between its steps.
\<close>

theorem lifecycle_invariant:
  assumes ok: "\<forall>m \<in> set (materials s). material_ok m"
    and fresh: "newMaterialId E \<notin> material_id ` set (materials s)"
  shows "(\<forall>ms \<in> set (materialsValues (newEvents s (handleFileUpload E fo s))).
            \<forall>m \<in> set ms. material_ok m) \<and>
         (\<forall>m \<in> set (materials (handleFileUpload E fo s)). material_ok m) \<and>
         (\<forall>ms \<in> set (materialsValues (newEvents s (generateNewQuestions E s))).
            \<forall>m \<in> set ms. material_ok m) \<and>
         (\<forall>m \<in> set (materials (generateNewQuestions E s)). material_ok m)"
proof -
  have ok': "allOk (materials s)"
    using ok by (simp add: allOk_def)
  show ?thesis
    using handleFileUpload_invariant [OF ok' fresh, of fo] generateNewQuestions_invariant [OF ok', of E]
    by (simp add: allOk_def list_all_iff)
qed

text \<open>A second upload into a session that holds three completed materials.\<close>

theorem lifecycle_invariant_witness:
  "list_all (list_all material_ok)
     (materialsValues (trace (handleFileUpload example_env (Some example_file) example_state))) \<and>
   list_all material_ok (materials (handleFileUpload example_env (Some example_file) example_state)) \<and>
   list_all material_ok (materials (generateNewQuestions example_env example_state))"
proof -
  have ok: "\<forall>m \<in> set (materials example_state). material_ok m"
    by (simp add: example_state_def example_materials_def example_material_def material_ok_def)
  have fresh: "newMaterialId example_env \<notin> material_id ` set (materials example_state)"
    by (simp add: example_state_def example_materials_def example_material_def newMaterialId_def
        example_env_def)
  have start: "trace example_state = []"
    by (simp add: example_state_def initialState_def)
  show ?thesis
    using lifecycle_invariant [OF ok fresh, of "Some example_file"]
    by (simp add: newEvents_def start list_all_iff)
qed

text \<open>The other operations on the list keep the invariant as well.\<close>

lemma other_operations_keep_invariant:
  assumes "allOk (materials s)"
  shows "allOk (materials (renameMaterial i n s))"
    and "allOk (materials (deleteMaterial i s))"
    and "allOk (materials (applySuggestedTitle i s))"
    and "allOk (materials (saveQuizResult E s))"
  using assms
  by (auto simp: renameMaterial_def deleteMaterial_def applySuggestedTitle_def saveQuizResult_def
      setter_defs updateById_def allOk_def material_ok_def Let_def
      split: option.splits json.splits)

text \<open>
  The handlers of an application run interleaved at their \<open>await\<close>s. Every update
  that any handler makes on behalf of an identifier \<open>j\<close> keeps what the run that owns
  an identifier \<open>i\<close> relies on, the updates that attach content or an error provided
  \<open>j\<close> is another identifier with a run of its own in progress: one run's updates do
  not disturb another's.
\<close>

lemma updates_do_not_interfere:
  assumes i: "inProgress i ms"
  shows "inProgress i (updateById j (\<lambda>m. m\<lparr>fileName := n\<rparr>) ms)"
    and "inProgress i (filter (\<lambda>m. material_id m \<noteq> j) ms)"
    and "inProgress i (updateById j
           (\<lambda>m. m\<lparr>quizResults := Some ((case quizResults m of None \<Rightarrow> [] | Some rs \<Rightarrow> rs) @ [r])\<rparr>) ms)"
    and "inProgress i (map (\<lambda>m. case content m of
                     Some c \<Rightarrow> if material_id m = j then m\<lparr>content := Some (c\<lparr>quizQuestions := q\<rparr>)\<rparr> else m
                   | None \<Rightarrow> m) ms)"
    and "newMaterialId E \<notin> material_id ` set ms \<Longrightarrow> inProgress i (ms @ [newMaterial E fl])"
    and "inProgress j ms \<Longrightarrow>
         inProgress i (updateById j (\<lambda>m. m\<lparr>fileUrl := u, processingStatus := Processing\<rparr>) ms)"
    and "inProgress i (updateById j (\<lambda>m. m\<lparr>extractedText := t\<rparr>) ms)"
    and "inProgress i (updateById j
           (\<lambda>m. m\<lparr>detectedLanguage := l, suggestedTitle := ti, thematicCategory := ca\<rparr>) ms)"
    and "inProgress j ms \<Longrightarrow> j \<noteq> i \<Longrightarrow>
         inProgress i (updateById j (\<lambda>m. m\<lparr>content := Some c, processingStatus := Completed\<rparr>) ms)"
    and "inProgress j ms \<Longrightarrow> j \<noteq> i \<Longrightarrow>
         inProgress i (updateById j (\<lambda>m. m\<lparr>processingStatus := Failed, error := Some e\<rparr>) ms)"
  using i
  unfolding inProgress_def updateById_def material_ok_def newMaterial_def
  by (auto simp: image_iff split: option.splits)

section \<open>Properties of the pipeline\<close>

lemma processUpload_calls:
  "case processUpload E fl i s of
     (r, s') \<Rightarrow>
       (\<exists>es. trace s' = trace s @ es \<and>
          (case r of
             Inr _ \<Rightarrow> chatCalls es = expectedCalls (lessonLength s) (runText E fl)
                                   (runLanguage E (length (chatCalls (trace s))) (runText E fl))
           | Inl _ \<Rightarrow> prefix (chatCalls es) (expectedCalls (lessonLength s) (runText E fl)
                                   (runLanguage E (length (chatCalls (trace s))) (runText E fl)))) \<and>
          (length (chatCalls es) \<le> 1 \<or>
           (\<exists>response. chatReply E (length (chatCalls (trace s))) (detectLanguageInput (runText E fl))
                = Inr response)))"
  unfolding run_defs
  by (simp add: mutateAsync_valid setter_defs Let_def expectedCalls_def pipelineOrder_def
      runText_def runLanguage_def split: sum.splits prod.splits)

lemma handleFileUpload_calls:
  "prefix (chatCalls (newEvents s (handleFileUpload E (Some fl) s)))
      (expectedCalls (lessonLength s) (runText E fl)
         (runLanguage E (length (chatCalls (trace s))) (runText E fl))) \<and>
   (length (chatCalls (newEvents s (handleFileUpload E (Some fl) s))) \<le> 1 \<or>
    (\<exists>response. chatReply E (length (chatCalls (trace s))) (detectLanguageInput (runText E fl))
         = Inr response))"
proof -
  consider (same) "handleFileUpload E (Some fl) s = s"
    | (dialog) "handleFileUpload E (Some fl) s = s\<lparr>showSubscriptionDialog := True\<rparr>"
    | (alert) "handleFileUpload E (Some fl) s = s\<lparr>trace := trace s @ [Alert ''Nur PDF, PPT und Text-Dateien sind erlaubt.'']\<rparr>"
    | (run) "isValidFormat fl"
        "(case currentUser s of Some u \<Rightarrow> isPremium u | None \<Rightarrow> False) \<or> canUpload s"
    using handleFileUpload_cases [of E "Some fl" s] by auto
  then show ?thesis
  proof cases
    case same
    then show ?thesis by (simp add: newEvents_def)
  next
    case dialog
    then show ?thesis by (simp add: newEvents_def)
  next
    case alert
    then show ?thesis by (simp add: newEvents_def)
  next
    case run
    define s4 where "s4 = incrementUploadCount E (setProcessingProgress 0
      (setSelectedMaterial (\<lambda>_. Some (newMaterial E fl))
        (setMaterials (\<lambda>prev. prev @ [newMaterial E fl]) s)))"
    obtain r s' where res: "processUpload E fl (newMaterialId E) s4 = (r, s')"
      by (cases "processUpload E fl (newMaterialId E) s4")
    have s4: "lessonLength s4 = lessonLength s"
      "trace s4 = trace s @ [MaterialsSet (materials s @ [newMaterial E fl]), ProgressSet 0,
         CountSet (todayUploadCount s + 1)]"
      by (simp_all add: s4_def incrementUploadCount_def setter_defs Let_def)
    then have k: "length (chatCalls (trace s4)) = length (chatCalls (trace s))"
      by simp
    have "\<exists>es. trace s' = trace s4 @ es \<and>
        prefix (chatCalls es) (expectedCalls (lessonLength s) (runText E fl)
                    (runLanguage E (length (chatCalls (trace s))) (runText E fl))) \<and>
        (length (chatCalls es) \<le> 1 \<or>
           (\<exists>response. chatReply E (length (chatCalls (trace s))) (detectLanguageInput (runText E fl))
                = Inr response))"
      using processUpload_calls [where E = E and fl = fl and i = "newMaterialId E" and s = s4] res
      unfolding k s4(1) by (cases r) auto
    then obtain es where es: "trace s' = trace s4 @ es"
      and calls: "prefix (chatCalls es) (expectedCalls (lessonLength s) (runText E fl)
                    (runLanguage E (length (chatCalls (trace s))) (runText E fl)))"
      and detected: "length (chatCalls es) \<le> 1 \<or>
           (\<exists>response. chatReply E (length (chatCalls (trace s))) (detectLanguageInput (runText E fl))
                = Inr response)"
      by blast
    have final: "handleFileUpload E (Some fl) s =
      (case r of Inr _ \<Rightarrow> s'
       | Inl e \<Rightarrow> setMaterials (updateById (newMaterialId E)
           (\<lambda>m. m\<lparr>processingStatus := Failed, error := Some (errorMessage e)\<rparr>)) s')"
      using handleFileUpload_admitted [OF run(2) run(1)] res unfolding s4_def by blast
    have "chatCalls (newEvents s (handleFileUpload E (Some fl) s)) = chatCalls es"
      using final es s4 by (cases r) (simp_all add: newEvents_def setMaterials_def Let_def)
    with calls detected show ?thesis by simp
  qed
qed

lemma expectedCalls_stages:
  "map fst (expectedCalls len txt lang) =
     [DetectLanguage, Lessons, Quiz, Summary, Flashcards, SuggestTitle, Categorize]"
  by (simp add: expectedCalls_def pipelineOrder_def)

text \<open>
  Claim C3, amended. The chat requests of an upload are sent in the order: detect
  language, lessons, quiz, summary, flashcards, suggest title, categorize. The
  requests of any run of \<open>handleFileUpload\<close> are an initial part of that sequence;
  when the \<open>try\<close> block of the handler ends without a throw they are all seven, and
  when it throws they are an initial part.
\<close>

theorem pipeline_call_order:
  "prefix (map fst (chatCalls (newEvents s (handleFileUpload E (Some fl) s))))
      [DetectLanguage, Lessons, Quiz, Summary, Flashcards, SuggestTitle, Categorize] \<and>
   (case processUpload E fl i s of
      (Inr _, s') \<Rightarrow> map fst (chatCalls (newEvents s s')) =
          [DetectLanguage, Lessons, Quiz, Summary, Flashcards, SuggestTitle, Categorize]
    | (Inl _, s') \<Rightarrow> prefix (map fst (chatCalls (newEvents s s')))
          [DetectLanguage, Lessons, Quiz, Summary, Flashcards, SuggestTitle, Categorize])"
proof -
  note order = expectedCalls_stages
  have first: "prefix (map fst (chatCalls (newEvents s (handleFileUpload E (Some fl) s))))
      [DetectLanguage, Lessons, Quiz, Summary, Flashcards, SuggestTitle, Categorize]"
    using handleFileUpload_calls [of s E fl] map_mono_prefix [where f = fst]
    unfolding order [symmetric, of "lessonLength s" "runText E fl"
        "runLanguage E (length (chatCalls (trace s))) (runText E fl)"] by blast
  obtain r s' where res: "processUpload E fl i s = (r, s')"
    by (cases "processUpload E fl i s")
  from processUpload_calls [where E = E and fl = fl and i = i and s = s] res
  obtain es where es: "trace s' = trace s @ es"
    and calls: "case r of
             Inr _ \<Rightarrow> chatCalls es = expectedCalls (lessonLength s) (runText E fl)
                                   (runLanguage E (length (chatCalls (trace s))) (runText E fl))
           | Inl _ \<Rightarrow> prefix (chatCalls es) (expectedCalls (lessonLength s) (runText E fl)
                                   (runLanguage E (length (chatCalls (trace s))) (runText E fl)))"
    by auto
  have second: "case r of
      Inr _ \<Rightarrow> map fst (chatCalls (newEvents s s')) =
          [DetectLanguage, Lessons, Quiz, Summary, Flashcards, SuggestTitle, Categorize]
    | Inl _ \<Rightarrow> prefix (map fst (chatCalls (newEvents s s')))
          [DetectLanguage, Lessons, Quiz, Summary, Flashcards, SuggestTitle, Categorize]"
  proof (cases r)
    case (Inr u)
    with calls es order show ?thesis by (simp add: newEvents_def)
  next
    case (Inl e)
    with calls es have "prefix (map fst (chatCalls (newEvents s s')))
        (map fst (expectedCalls (lessonLength s) (runText E fl)
           (runLanguage E (length (chatCalls (trace s))) (runText E fl))))"
      by (simp add: newEvents_def map_mono_prefix)
    with Inl show ?thesis by (simp add: order)
  qed
  from first second res show ?thesis by simp
qed

lemmas example_run_simps = example_facts mutateAsync_valid canUpload_def FREE_DAILY_LIMIT_def
  initialState_def incrementUploadCount_def setter_defs Let_def

text \<open>The \<open>try\<close> block on the example upload ends without a throw after seven requests.\<close>

theorem pipeline_call_order_witness:
  "map fst (chatCalls (newEvents (initialState Map.empty)
       (snd (processUpload example_env example_file ''m1'' (initialState Map.empty))))) =
     [DetectLanguage, Lessons, Quiz, Summary, Flashcards, SuggestTitle, Categorize]"
proof -
  have completes: "fst (processUpload example_env example_file ''m1'' (initialState Map.empty)) = Inr ()"
    unfolding run_defs by (simp add: example_run_simps)
  show ?thesis
    using pipeline_call_order [of "initialState Map.empty" example_env example_file "''m1''"] completes
    by (auto split: prod.splits sum.splits)
qed

text \<open>
  Claim C3 as stated fails on the example upload: the second request is the one for
  the lessons, and the title and the category are asked for last.
\<close>

theorem title_not_second_counterexample:
  "map fst (chatCalls (trace (handleFileUpload example_env (Some example_file) (initialState Map.empty))))
     = [DetectLanguage, Lessons, Quiz, Summary, Flashcards, SuggestTitle, Categorize] \<and>
   map fst (chatCalls (trace (handleFileUpload example_env (Some example_file) (initialState Map.empty))))
     \<noteq> [DetectLanguage, SuggestTitle, Categorize, Lessons, Quiz, Summary, Flashcards]"
  unfolding handleFileUpload_def run_defs by (simp add: example_run_simps)

lemma stage_embeds_language:
  assumes "st \<in> set (tl pipelineOrder)"
  shows "sublist lang (msg_content (hd (req_messages (requestData (stageInput st len txt lang)))))"
proof -
  have mid: "sublist lang (pre @ lang @ post)" for pre post :: string
    by (rule sublist_appendI)
  from assms consider "st = Lessons" | "st = Quiz" | "st = Summary" | "st = Flashcards"
    | "st = SuggestTitle" | "st = Categorize"
    by (auto simp: pipelineOrder_def)
  then show ?thesis
  proof cases
    case 1
    then show ?thesis
      using mid [of "''You are an educational content creator. Create '' @ fst (lessonConfig len) @ '' '' @ snd (lessonConfig len) @ '' micro-lessons from the provided text. You MUST respond in ''"]
      by (simp add: requestData_def lessonsInput_def)
  next
    case 2
    then show ?thesis
      using mid [of "''You are a quiz creator. Create 5-7 detailed multiple-choice questions with 4 options each. Include an explanation for each correct answer. You MUST respond in ''"]
      by (simp add: requestData_def quizInput_def)
  next
    case 3
    then show ?thesis
      using mid [of "''You are a summarization expert. Create a concise 2-3 paragraph summary. You MUST respond in ''"]
      by (simp add: requestData_def summaryInput_def)
  next
    case 4
    then show ?thesis
      using mid [of "''You are a flashcard creator. Create 10-12 detailed flashcards with a question/term on the front and a comprehensive answer/definition on the back. You MUST respond in ''"]
      by (simp add: requestData_def flashcardsInput_def)
  next
    case 5
    then show ?thesis
      using mid [of "''You are a content analyst. Analyze the provided text and generate a short, descriptive title (3-8 words) that captures the main topic or subject. Respond ONLY with the title in ''"]
      by (simp add: requestData_def titleInput_def)
  next
    case 6
    then show ?thesis
      using mid [of "''You are a content categorization expert. Analyze the provided text and assign it to ONE thematic category. Choose from: Science, Technology, History, Literature, Mathematics, Business, Arts, Health, Language, Social Studies, Philosophy, Engineering, or Other. Respond ONLY with the category name in ''"]
      by (simp add: requestData_def categoryInput_def)
  qed
qed

lemma tl_prefix_subset:
  assumes "prefix xs ys"
  shows "set (tl xs) \<subseteq> set (tl ys)"
  using assms by (cases xs; cases ys) (auto dest: set_mono_prefix)

text \<open>
  Claim C7. When a run of \<open>handleFileUpload\<close> sends more than one chat request, the
  language detection answered with some response, and every later request (lessons,
  quiz, summary, flashcards, title, category) is the request of its call site built
  with the content of that response, trimmed, as the language; the trimmed string
  occurs in the system message of the request.
\<close>

theorem language_threaded:
  "length (chatCalls (newEvents s (handleFileUpload E (Some fl) s))) \<le> 1 \<or>
   (\<exists>response.
      chatReply E (length (chatCalls (trace s))) (detectLanguageInput (runText E fl)) = Inr response \<and>
      (\<forall>(st, r) \<in> set (tl (chatCalls (newEvents s (handleFileUpload E (Some fl) s)))).
         st \<noteq> DetectLanguage \<and>
         r = requestData (stageInput st (lessonLength s) (runText E fl) (trim (response_content response))) \<and>
         sublist (trim (response_content response)) (msg_content (hd (req_messages r)))))"
proof (cases "length (chatCalls (newEvents s (handleFileUpload E (Some fl) s))) \<le> 1")
  case True
  then show ?thesis by simp
next
  case False
  with handleFileUpload_calls [of s E fl]
  obtain response where reply:
    "chatReply E (length (chatCalls (trace s))) (detectLanguageInput (runText E fl)) = Inr response"
    and calls: "prefix (chatCalls (newEvents s (handleFileUpload E (Some fl) s)))
      (expectedCalls (lessonLength s) (runText E fl)
         (runLanguage E (length (chatCalls (trace s))) (runText E fl)))"
    by auto
  have lang: "runLanguage E (length (chatCalls (trace s))) (runText E fl) = trim (response_content response)"
    using reply by (simp add: runLanguage_def)
  have later: "st \<noteq> DetectLanguage \<and>
         r = requestData (stageInput st (lessonLength s) (runText E fl) (trim (response_content response))) \<and>
         sublist (trim (response_content response)) (msg_content (hd (req_messages r)))"
    if "(st, r) \<in> set (tl (chatCalls (newEvents s (handleFileUpload E (Some fl) s))))" for st r
  proof -
    from that tl_prefix_subset [OF calls]
    have mem: "(st, r) \<in> set (tl (expectedCalls (lessonLength s) (runText E fl)
        (trim (response_content response))))"
      unfolding lang by blast
    then have st: "st \<in> set (tl pipelineOrder)"
      and r: "r = requestData (stageInput st (lessonLength s) (runText E fl) (trim (response_content response)))"
      by (auto simp: expectedCalls_def pipelineOrder_def)
    from st have "st \<noteq> DetectLanguage"
      by (auto simp: pipelineOrder_def)
    with r stage_embeds_language [OF st] show ?thesis by simp
  qed
  with reply show ?thesis by blast
qed

text \<open>On the example upload the detection answers \<open>English\<close> between a space and a
  line feed, and the six later requests carry \<open>English\<close>.\<close>

theorem language_threaded_witness:
  "length (chatCalls (trace (handleFileUpload example_env (Some example_file) (initialState Map.empty)))) = 7 \<and>
   list_all (\<lambda>(st, r). sublist ''English'' (msg_content (hd (req_messages r))))
     (tl (chatCalls (trace (handleFileUpload example_env (Some example_file) (initialState Map.empty)))))"
proof -
  have seven:
    "length (chatCalls (trace (handleFileUpload example_env (Some example_file) (initialState Map.empty)))) = 7"
    unfolding handleFileUpload_def run_defs by (simp add: example_run_simps)
  have reply: "chatReply example_env 0 input = Inr response \<Longrightarrow> trim (response_content response) = ''English''"
    for input response
    using example_trim by (auto simp: example_chatReply)
  show ?thesis
    using language_threaded [of "initialState Map.empty" example_env example_file] seven reply
    by (auto simp: newEvents_def initialState_def list_all_iff)
qed

section \<open>Properties of question regeneration\<close>

lemma list_all2_map_self:
  assumes "\<And>m. m \<in> set ms \<Longrightarrow> P m (f m)"
  shows "list_all2 P ms (map f ms)"
  using assms by (simp add: list_all2_map2 list_all2_same)

lemma eraseQuiz_replaced:
  "content m = Some c \<Longrightarrow> eraseQuiz (m\<lparr>content := Some (c\<lparr>quizQuestions := q\<rparr>)\<rparr>) = eraseQuiz m"
  by (simp add: eraseQuiz_def)

lemma generateNewQuestions_materials:
  "materials (generateNewQuestions E s) = materials s \<or>
   (\<exists>sel q. selectedMaterial s = Some sel \<and>
      materials (generateNewQuestions E s) =
        map (\<lambda>m. case content m of
                    Some c \<Rightarrow> if material_id m = material_id sel
                              then m\<lparr>content := Some (c\<lparr>quizQuestions := q\<rparr>)\<rparr> else m
                  | None \<Rightarrow> m) (materials s))"
  by (auto simp: generateNewQuestions_def mutateAsync_valid setter_defs Let_def
      split: option.splits sum.splits)

text \<open>
  Claim C6. \<open>generateNewQuestions\<close> leaves the materials list with the same length
  and, position by position, with materials that agree with the old ones on
  everything but \<open>content.quizQuestions\<close> (so the lessons, the summary, the flashcards
  and the detected language are the old ones, and content is there exactly when it
  was); a material whose identifier is not the selected one is unchanged.
\<close>

theorem regenerate_frame:
  "list_all2
     (\<lambda>m m'. eraseQuiz m' = eraseQuiz m \<and>
              (map_option material_id (selectedMaterial s) \<noteq> Some (material_id m) \<longrightarrow> m' = m))
     (materials s) (materials (generateNewQuestions E s))"
proof -
  from generateNewQuestions_materials [of E s]
  consider (same) "materials (generateNewQuestions E s) = materials s"
    | (replaced) sel q where "selectedMaterial s = Some sel"
        "materials (generateNewQuestions E s) =
           map (\<lambda>m. case content m of
                    Some c \<Rightarrow> if material_id m = material_id sel
                              then m\<lparr>content := Some (c\<lparr>quizQuestions := q\<rparr>)\<rparr> else m
                  | None \<Rightarrow> m) (materials s)"
    by blast
  then show ?thesis
  proof cases
    case same
    then show ?thesis by (simp add: list_all2_same)
  next
    case replaced
    show ?thesis
      unfolding replaced(2)
      by (rule list_all2_map_self) (auto simp: replaced(1) eraseQuiz_replaced split: option.splits)
  qed
qed

text \<open>Regeneration on the three example materials: the first gets the new question,
  the other two are as they were.\<close>

theorem regenerate_frame_witness:
  "map eraseQuiz (materials (generateNewQuestions example_regen_env example_state)) =
     map eraseQuiz example_materials \<and>
   tl (materials (generateNewQuestions example_regen_env example_state)) = tl example_materials \<and>
   map_option quizQuestions (content (hd (materials (generateNewQuestions example_regen_env example_state))))
     = Some (JArray [JNumber (Finite 1)])"
proof -
  have result: "materials (generateNewQuestions example_regen_env example_state) =
      example_material\<lparr>content := Some \<lparr>microLessons = JArray [overviewLesson ''Cells''],
                      quizQuestions = JArray [JNumber (Finite 1)],
                      summary = ''Cells.'',
                      flashcards = JArray [],
                      content_detectedLanguage = ''English''\<rparr>\<rparr> # tl example_materials"
    by (simp add: generateNewQuestions_def example_state_def example_materials_def
        example_material_def initialState_def mutateAsync_valid chatReply_def
        example_regen_env_def example_env_def readResponse_def requestData_def example_reply_def
        parseQuiz_def tryParseField_def example_JSON_parse_def orEmptyArray_def lengthPositive_def
        setter_defs Let_def)
  have frame: "list_all2
     (\<lambda>m m'. eraseQuiz m' = eraseQuiz m \<and>
              (map_option material_id (selectedMaterial example_state) \<noteq> Some (material_id m) \<longrightarrow> m' = m))
     (materials example_state) (materials (generateNewQuestions example_regen_env example_state))"
    by (rule regenerate_frame)
  then have "map eraseQuiz (materials (generateNewQuestions example_regen_env example_state)) =
     map eraseQuiz (materials example_state)"
    by (induction rule: list_all2_induct) simp_all
  then show ?thesis
    using result by (simp add: example_state_def)
qed

section \<open>Properties of persistence\<close>

text \<open>
  What does hold of the save effect: after a render that commits, a list that is not
  empty stands in storage whole, as \<open>JSON.stringify\<close> writes it; after a render that
  throws the storage is as it was.
\<close>

lemma committed_list_is_saved:
  "materials s \<noteq> [] \<Longrightarrow>
   localStorage (afterRender Commits s) STORAGE_KEY =
     Some (StoredMaterials (map material_toJSON (materials s)))"
  "afterRender Throws s = s"
  by (simp_all add: afterRender_def saveMaterialsEffect_def)

lemma new_Date_toJSON: "d \<noteq> InvalidDate \<Longrightarrow> new_Date (date_toJSON d) = d"
  by (cases d) simp_all

lemma result_roundtrip:
  "timestamp r \<noteq> InvalidDate \<Longrightarrow> map_result_date new_Date (map_result_date date_toJSON r) = r"
  by (simp add: map_result_date_def new_Date_toJSON)

lemma results_roundtrip:
  "list_all (\<lambda>r. timestamp r \<noteq> InvalidDate) rs \<Longrightarrow>
   map (\<lambda>r. map_result_date new_Date (map_result_date date_toJSON r)) rs = rs"
  by (induction rs) (simp_all add: result_roundtrip)

text \<open>
  And of the reload: a list written by the effect and loaded at mount has its
  upload dates and quiz timestamps read back through \<open>new Date\<close>; a material whose
  dates are valid comes back with the same dates, and differs at most in numbers of
  its content that JSON cannot write.
\<close>

lemma reload_after_save:
  "ms \<noteq> [] \<Longrightarrow>
   materials (loadMaterials (initialState (saveMaterialsEffect ms st))) =
     map (\<lambda>m. rehydrate (material_toJSON m)) ms"
  by (simp add: loadMaterials_def initialState_def saveMaterialsEffect_def setMaterials_def
      Let_def comp_def)

lemma rehydrate_toJSON:
  assumes "datesValid m"
  shows "rehydrate (material_toJSON m) = m\<lparr>content := map_option content_toJSON (content m)\<rparr>"
proof (cases m)
  case (fields i n ty u d tx l t c k st e q)
  with assms show ?thesis
    by (cases q)
      (simp_all add: rehydrate_def material_toJSON_def map_material_dates_def datesValid_def
        new_Date_toJSON results_roundtrip option.map_comp comp_def option.map_ident)
qed

lemma example_material_toJSON_roundtrip: "rehydrate (material_toJSON example_material) = example_material"
  by (simp add: rehydrate_def material_toJSON_def map_material_dates_def example_material_def
      map_result_date_def content_toJSON_def overviewLesson_def)

text \<open>
  Claim C5: the materials list is to be persisted after every change, as the comment
  of the code on its effect says too (``Save materials to localStorage whenever they
  change''). The code does not do so when the last material is deleted. In a session
  whose list holds one material, saved in storage, with none selected:
  \<open>deleteMaterial\<close> empties the list, the render commits, the effect finds the list
  empty and writes nothing, the storage still holds the deleted material, and the next
  mount loads it again.
\<close>

theorem deleted_last_material_returns:
  "materials example_saved_state = [example_material] \<and>
   selectedMaterial example_saved_state = None \<and>
   localStorage example_saved_state STORAGE_KEY = Some (StoredMaterials [material_toJSON example_material]) \<and>
   materials (afterRender Commits (deleteMaterial ''1690000000000-0.5'' example_saved_state)) = [] \<and>
   localStorage (afterRender Commits (deleteMaterial ''1690000000000-0.5'' example_saved_state)) STORAGE_KEY =
     Some (StoredMaterials [material_toJSON example_material]) \<and>
   materials (loadMaterials (initialState
        (localStorage (afterRender Commits (deleteMaterial ''1690000000000-0.5'' example_saved_state)))))
     = [example_material]"
proof -
  have list: "materials example_saved_state = [example_material]"
    and none: "selectedMaterial example_saved_state = None"
    and stored: "localStorage example_saved_state STORAGE_KEY =
       Some (StoredMaterials [material_toJSON example_material])"
    by (simp_all add: example_saved_state_def afterRender_def setMaterials_def
        saveMaterialsEffect_def initialState_def Let_def)
  have ident: "material_id example_material = ''1690000000000-0.5''"
    by (simp add: example_material_def)
  have deleted: "materials (afterRender Commits (deleteMaterial ''1690000000000-0.5'' example_saved_state)) = []"
    and kept: "localStorage (afterRender Commits (deleteMaterial ''1690000000000-0.5'' example_saved_state))
       STORAGE_KEY = Some (StoredMaterials [material_toJSON example_material])"
    using list stored ident
    by (simp_all add: deleteMaterial_def afterRender_def setMaterials_def saveMaterialsEffect_def
        setSelectedMaterial_def Let_def)
  have reloaded: "materials (loadMaterials (initialState
        (localStorage (afterRender Commits (deleteMaterial ''1690000000000-0.5'' example_saved_state)))))
     = [example_material]"
    using kept
    by (simp add: loadMaterials_def initialState_def setMaterials_def Let_def
        example_material_toJSON_roundtrip)
  from list none stored deleted kept reloaded show ?thesis by simp
qed

section \<open>Properties of the sorted view\<close>

lemma set_insertSorted [simp]: "set (insertSorted cmp x ys) = insert x (set ys)"
  by (induction ys) auto

lemma mset_insertSorted [simp]: "mset (insertSorted cmp x ys) = add_mset x (mset ys)"
  by (induction ys) simp_all

lemma mset_array_sort [simp]: "mset (array_sort cmp xs) = mset xs"
  by (induction xs) (simp_all add: array_sort_def)

lemma set_array_sort [simp]: "set (array_sort cmp xs) = set xs"
  by (induction xs) (simp_all add: array_sort_def)

















end
